theory Spec2Isabelle
  imports Complex_Main
begin

section \<open>Python values\<close>

text \<open>
  The client passes around whatever \<^verbatim>\<open>response.json()\<close> produced, a hand-built error
  dictionary, or \<^verbatim>\<open>None\<close>. All of them are values of one type. A dictionary is an
  association list read through \<open>map_of\<close>. Floating point numbers are only carried
  around (the rating, the measured duration); no arithmetic is done on them here.
\<close>

type_synonym pyfloat = rat

datatype json =
    JNull
  | JBool bool
  | JInt int
  | JFloat pyfloat
  | JStr string
  | JList "json list"
  | JObj "(string \<times> json) list"

datatype py_exception =
    ValueError string
  | JSONDecodeError string
  | AttributeError
  | TypeError
  | ValidationError

text \<open>\<^verbatim>\<open>k in d\<close> and \<^verbatim>\<open>d.get(k, default)\<close> on a dictionary.\<close>

definition dict_has :: "(string \<times> json) list \<Rightarrow> string \<Rightarrow> bool" where
  "dict_has d k = (case map_of d k of None \<Rightarrow> False | Some v \<Rightarrow> True)"

definition dict_get :: "(string \<times> json) list \<Rightarrow> string \<Rightarrow> json \<Rightarrow> json" where
  "dict_get d k dflt = (case map_of d k of None \<Rightarrow> dflt | Some v \<Rightarrow> v)"

text \<open>\<^verbatim>\<open>x.get(k, default)\<close> on any value: only a dictionary has the method.\<close>

fun py_get :: "json \<Rightarrow> string \<Rightarrow> json \<Rightarrow> py_exception + json" where
  "py_get (JObj d) k dflt = Inr (dict_get d k dflt)"
| "py_get v k dflt = Inl AttributeError"

text \<open>\<^verbatim>\<open>isinstance(x, dict) and 'error' in x\<close>.\<close>

fun is_error_dict :: "json \<Rightarrow> bool" where
  "is_error_dict (JObj d) = dict_has d ''error''"
| "is_error_dict v = False"

text \<open>Truth value of a Python object, as \<^verbatim>\<open>not x\<close> tests it.\<close>

fun truthy :: "json \<Rightarrow> bool" where
  "truthy JNull = False"
| "truthy (JBool b) = b"
| "truthy (JInt n) = (n \<noteq> 0)"
| "truthy (JFloat r) = (r \<noteq> 0)"
| "truthy (JStr s) = (s \<noteq> [])"
| "truthy (JList xs) = (xs \<noteq> [])"
| "truthy (JObj d) = (d \<noteq> [])"

fun is_prefix :: "string \<Rightarrow> string \<Rightarrow> bool" where
  "is_prefix [] ys = True"
| "is_prefix (x # xs) [] = False"
| "is_prefix (x # xs) (y # ys) = (x = y \<and> is_prefix xs ys)"

fun is_substring :: "string \<Rightarrow> string \<Rightarrow> bool" where
  "is_substring xs [] = (xs = [])"
| "is_substring xs (y # ys) = (is_prefix xs (y # ys) \<or> is_substring xs ys)"

text \<open>
  \<^verbatim>\<open>k in x\<close> for a string \<open>k\<close>: key membership in a dictionary, element membership in a
  list, substring test in a string, and a \<^verbatim>\<open>TypeError\<close> on anything else.
\<close>

fun py_contains :: "string \<Rightarrow> json \<Rightarrow> py_exception + bool" where
  "py_contains k (JObj d) = Inr (dict_has d k)"
| "py_contains k (JList xs) = Inr (JStr k \<in> set xs)"
| "py_contains k (JStr s) = Inr (is_substring k s)"
| "py_contains k v = Inl TypeError"

text \<open>
  \<^verbatim>\<open>for item in x\<close>: a list yields its elements, a dictionary its keys, a string its
  one-character strings; anything else is not iterable.
\<close>

fun py_iter :: "json \<Rightarrow> py_exception + json list" where
  "py_iter (JList xs) = Inr xs"
| "py_iter (JObj d) = Inr (map (\<lambda>kv. JStr (fst kv)) d)"
| "py_iter (JStr s) = Inr (map (\<lambda>c. JStr [c]) s)"
| "py_iter v = Inl TypeError"

text \<open>Decimal rendering of an integer, as an f-string interpolates it.\<close>

definition digit_char :: "nat \<Rightarrow> char" where
  "digit_char d = ''0123456789'' ! d"

fun str_nat :: "nat \<Rightarrow> string" where
  "str_nat n =
     (if n < 10 then [digit_char n]
      else str_nat (n div 10) @ [digit_char (n mod 10)])"

declare str_nat.simps [simp del]

definition str_int :: "int \<Rightarrow> string" where
  "str_int i = (if i < 0 then CHR ''-'' # str_nat (nat (- i)) else str_nat (nat i))"

definition str_opt :: "string option \<Rightarrow> string" where
  "str_opt s = (case s of None \<Rightarrow> ''None'' | Some t \<Rightarrow> t)"


section \<open>The upstream client (movie_client.py)\<close>

text \<open>
  The network is the environment. A request is what \<^verbatim>\<open>requests.get\<close> is given; the
  upstream answers it, knowing the requests sent before, with a response (status code and
  the outcome of \<^verbatim>\<open>response.json()\<close>: the decoder's message when the body is not JSON,
  the decoded value otherwise) or with a transport failure (a
  \<^verbatim>\<open>RequestException\<close> that is not an \<^verbatim>\<open>HTTPError\<close>, with its message).
\<close>

record request =
  url :: string
  req_headers :: "(string \<times> string) list"
  params :: "(string \<times> string) list"

datatype http_outcome =
    Response int "string + json"
  | RequestFailure string

type_synonym upstream = "request list \<Rightarrow> request \<Rightarrow> http_outcome"

record MovieAPIClient =
  BASE_URL :: "string option"
  API_KEY :: "string option"
  headers :: "(string \<times> string) list"

text \<open>\<^verbatim>\<open>__init__\<close>: the two class attributes come from the environment.\<close>

definition MovieAPIClient_init :: "string option \<Rightarrow> string option \<Rightarrow> py_exception + MovieAPIClient" where
  "MovieAPIClient_init base_url api_key =
     (case api_key of
        None \<Rightarrow> Inl (ValueError ''TMDB_API_KEY environmental variable value not set. Please check your .env file.'')
      | Some k \<Rightarrow>
          if k = [] then Inl (ValueError ''TMDB_API_KEY environmental variable value not set. Please check your .env file.'')
          else Inr \<lparr>BASE_URL = base_url, API_KEY = api_key,
                    headers = [(''Authorization'', ''Bearer '' @ k), (''accept'', ''application/json'')]\<rparr>)"

text \<open>\<^verbatim>\<open>raise_for_status\<close> raises for the status codes 400 to 599.\<close>

definition raises_for_status :: "int \<Rightarrow> bool" where
  "raises_for_status status_code = (400 \<le> status_code \<and> status_code < 600)"

text \<open>
  The arguments of the two \<^verbatim>\<open>requests.get\<close> calls: the endpoint built by the f-string
  (an unset base URL is interpolated as \<^verbatim>\<open>None\<close>), the headers, the query parameters.
\<close>

definition details_request :: "MovieAPIClient \<Rightarrow> int \<Rightarrow> request" where
  "details_request self movie_id =
     \<lparr>url = str_opt (BASE_URL self) @ ''/movie/'' @ str_int movie_id,
      req_headers = headers self, params = []\<rparr>"

definition search_request :: "MovieAPIClient \<Rightarrow> string \<Rightarrow> request" where
  "search_request self query =
     \<lparr>url = str_opt (BASE_URL self) @ ''/search/movie'',
      req_headers = headers self, params = [(''query'', query)]\<rparr>"

text \<open>
  The body of \<^verbatim>\<open>get_movie_details\<close>, under its decorator. It returns the value or the
  exception that leaves it, and the log of requests with the one it sent. In the
  \<^verbatim>\<open>HTTPError\<close> handler \<^verbatim>\<open>response.json()\<close> is called again, outside any \<^verbatim>\<open>try\<close>: what
  it raises there leaves the method. On the success path the decoder's exception is a
  \<^verbatim>\<open>RequestException\<close> and the second handler catches it.
\<close>

definition get_movie_details_body ::
  "upstream \<Rightarrow> MovieAPIClient \<Rightarrow> int \<Rightarrow> request list \<Rightarrow> (py_exception + json) \<times> request list" where
  "get_movie_details_body U self movie_id sent =
     (let req = details_request self movie_id;
          sent' = sent @ [req]
      in case U sent req of
           RequestFailure e \<Rightarrow>
             (Inr (JObj [(''error'', JStr ''Network or Connection error''), (''message'', JStr e)]), sent')
         | Response status_code body \<Rightarrow>
             if raises_for_status status_code then
               if status_code = 404 then (Inr JNull, sent')
               else (case body of
                       Inl e \<Rightarrow> (Inl (JSONDecodeError e), sent')
                     | Inr j \<Rightarrow>
                         (case py_get j ''status_message'' (JStr ''Unknown API error'') of
                            Inl x \<Rightarrow> (Inl x, sent')
                          | Inr m \<Rightarrow>
                              (Inr (JObj [(''error'', JStr (''API error : '' @ str_int status_code)),
                                          (''message'', m)]), sent')))
             else (case body of
                     Inl e \<Rightarrow>
                       (Inr (JObj [(''error'', JStr ''Network or Connection error''), (''message'', JStr e)]), sent')
                   | Inr j \<Rightarrow> (Inr j, sent')))"

definition search_movies_body ::
  "upstream \<Rightarrow> MovieAPIClient \<Rightarrow> string \<Rightarrow> request list \<Rightarrow> (py_exception + json) \<times> request list" where
  "search_movies_body U self query sent =
     (let req = search_request self query;
          sent' = sent @ [req]
      in case U sent req of
           RequestFailure e \<Rightarrow>
             (Inr (JObj [(''error'', JStr ''Network or connection error''), (''message'', JStr e)]), sent')
         | Response status_code body \<Rightarrow>
             if raises_for_status status_code then
               (case body of
                  Inl e \<Rightarrow> (Inl (JSONDecodeError e), sent')
                | Inr j \<Rightarrow>
                    (case py_get j ''status_message'' (JStr ''Unknown API error'') of
                       Inl x \<Rightarrow> (Inl x, sent')
                     | Inr m \<Rightarrow>
                         (Inr (JObj [(''error'', JStr (''API Error: '' @ str_int status_code)),
                                     (''message'', m)]), sent')))
             else (case body of
                     Inl e \<Rightarrow>
                       (Inr (JObj [(''error'', JStr ''Network or connection error''), (''message'', JStr e)]), sent')
                   | Inr j \<Rightarrow> (Inr j, sent')))"


section \<open>The memoizing decorator\<close>

text \<open>
  \<^verbatim>\<open>functools.lru_cache(maxsize)\<close> for a positive \<open>maxsize\<close>. The cache is the list of
  its entries, the most recently used first. A hit moves the entry to the front and
  does not call the wrapped function. A miss calls it; an exception passes through and
  stores nothing; a value is stored at the front, and when the cache is full the entry
  at the back, the least recently used, is dropped for it.
\<close>

type_synonym ('k, 'v) lru = "('k \<times> 'v) list"

definition lru_cache_call ::
  "nat \<Rightarrow> ('k \<Rightarrow> 'w \<Rightarrow> (py_exception + 'v) \<times> 'w) \<Rightarrow> 'k \<Rightarrow> ('k, 'v) lru \<Rightarrow> 'w
     \<Rightarrow> (py_exception + 'v) \<times> ('k, 'v) lru \<times> 'w" where
  "lru_cache_call maxsize user_function key cache w =
     (case map_of cache key of
        Some result \<Rightarrow> (Inr result, (key, result) # filter (\<lambda>kv. fst kv \<noteq> key) cache, w)
      | None \<Rightarrow>
          (case user_function key w of
             (Inl e, w') \<Rightarrow> (Inl e, cache, w')
           | (Inr result, w') \<Rightarrow>
               (Inr result,
                (if maxsize \<le> length cache then (key, result) # butlast cache
                 else (key, result) # cache),
                w')))"

text \<open>
  The state of the process: the two caches (one per decorated method) and the log of
  the requests sent upstream so far. There is one client object, so the \<^verbatim>\<open>self\<close> part
  of a cache key never varies and the key is the remaining argument.
\<close>

record state =
  details_cache :: "(int, json) lru"
  search_cache :: "(string, json) lru"
  sent :: "request list"

definition init_state :: state where
  "init_state = \<lparr>details_cache = [], search_cache = [], sent = []\<rparr>"

definition get_movie_details ::
  "upstream \<Rightarrow> MovieAPIClient \<Rightarrow> int \<Rightarrow> state \<Rightarrow> (py_exception + json) \<times> state" where
  "get_movie_details U self movie_id s =
     (case lru_cache_call 128 (get_movie_details_body U self) movie_id (details_cache s) (sent s) of
        (r, cache', sent') \<Rightarrow> (r, s\<lparr>details_cache := cache', sent := sent'\<rparr>))"

definition search_movies ::
  "upstream \<Rightarrow> MovieAPIClient \<Rightarrow> string \<Rightarrow> state \<Rightarrow> (py_exception + json) \<times> state" where
  "search_movies U self query s =
     (case lru_cache_call 32 (search_movies_body U self) query (search_cache s) (sent s) of
        (r, cache', sent') \<Rightarrow> (r, s\<lparr>search_cache := cache', sent := sent'\<rparr>))"

section \<open>The service (main.py)\<close>

text \<open>
  The response models. Field validation is the library's: a value that already has the
  field's type is taken as it is, \<^verbatim>\<open>None\<close> is refused by a required field and accepted
  by an optional one, and what the library does with any other value is a parameter of
  the model: its lax conversions, which differ between its versions, and the conversion
  of an integer for a float field, which rounds to a double and refuses an integer
  beyond the range of doubles. The fields keep their names behind a prefix per model
  (\<open>d_\<close>, \<open>r_\<close>, \<open>s_\<close>), since three models share field names.
\<close>

record pydantic =
  lax_int :: "json \<Rightarrow> int option"
  lax_str :: "json \<Rightarrow> string option"
  lax_float :: "json \<Rightarrow> pyfloat option"

definition validate_int :: "pydantic \<Rightarrow> json \<Rightarrow> int option" where
  "validate_int P v = (case v of JInt n \<Rightarrow> Some n | JNull \<Rightarrow> None | _ \<Rightarrow> lax_int P v)"

definition validate_str :: "pydantic \<Rightarrow> json \<Rightarrow> string option" where
  "validate_str P v = (case v of JStr t \<Rightarrow> Some t | JNull \<Rightarrow> None | _ \<Rightarrow> lax_str P v)"

definition validate_optional_str :: "pydantic \<Rightarrow> json \<Rightarrow> string option option" where
  "validate_optional_str P v =
     (case v of JNull \<Rightarrow> Some None | _ \<Rightarrow> map_option Some (validate_str P v))"

definition validate_float :: "pydantic \<Rightarrow> json \<Rightarrow> pyfloat option" where
  "validate_float P v =
     (case v of JFloat r \<Rightarrow> Some r | JNull \<Rightarrow> None | _ \<Rightarrow> lax_float P v)"

text \<open>The library without lax conversions: only values of the field's own type pass.\<close>

definition strict :: pydantic where
  "strict = \<lparr>lax_int = (\<lambda>v. None), lax_str = (\<lambda>v. None), lax_float = (\<lambda>v. None)\<rparr>"

record MovieDetailsResponse =
  d_movie_id :: int
  d_title :: string
  d_release_date :: "string option"
  d_rating :: pyfloat
  d_summary :: string
  d_duration_ms :: pyfloat

definition MovieDetailsResponse_new ::
  "pydantic \<Rightarrow> json \<Rightarrow> json \<Rightarrow> json \<Rightarrow> json \<Rightarrow> json \<Rightarrow> pyfloat \<Rightarrow> py_exception + MovieDetailsResponse" where
  "MovieDetailsResponse_new P v_id v_title v_date v_rating v_summary d =
     (case validate_int P v_id of None \<Rightarrow> Inl ValidationError | Some i \<Rightarrow>
      case validate_str P v_title of None \<Rightarrow> Inl ValidationError | Some t \<Rightarrow>
      case validate_optional_str P v_date of None \<Rightarrow> Inl ValidationError | Some r \<Rightarrow>
      case validate_float P v_rating of None \<Rightarrow> Inl ValidationError | Some g \<Rightarrow>
      case validate_str P v_summary of None \<Rightarrow> Inl ValidationError | Some u \<Rightarrow>
        Inr \<lparr>d_movie_id = i, d_title = t, d_release_date = r, d_rating = g, d_summary = u, d_duration_ms = d\<rparr>)"

record MovieSearchResult =
  r_movie_id :: int
  r_title :: string
  r_release_date :: "string option"

definition MovieSearchResult_new ::
  "pydantic \<Rightarrow> json \<Rightarrow> json \<Rightarrow> json \<Rightarrow> py_exception + MovieSearchResult" where
  "MovieSearchResult_new P v_id v_title v_date =
     (case validate_int P v_id of None \<Rightarrow> Inl ValidationError | Some i \<Rightarrow>
      case validate_str P v_title of None \<Rightarrow> Inl ValidationError | Some t \<Rightarrow>
      case validate_optional_str P v_date of None \<Rightarrow> Inl ValidationError | Some r \<Rightarrow>
        Inr \<lparr>r_movie_id = i, r_title = t, r_release_date = r\<rparr>)"

record SearchResponse =
  s_query :: string
  s_total_results :: int
  s_results :: "MovieSearchResult list"
  s_duration_ms :: pyfloat

definition SearchResponse_new ::
  "pydantic \<Rightarrow> string \<Rightarrow> json \<Rightarrow> MovieSearchResult list \<Rightarrow> pyfloat \<Rightarrow> py_exception + SearchResponse" where
  "SearchResponse_new P q v_total rs d =
     (case validate_int P v_total of None \<Rightarrow> Inl ValidationError | Some n \<Rightarrow>
        Inr \<lparr>s_query = q, s_total_results = n, s_results = rs, s_duration_ms = d\<rparr>)"

text \<open>
  What a handler ends with besides a response: an \<^verbatim>\<open>HTTPException\<close> it raised (status
  code and detail), or another exception that left it, which the framework answers
  with its own status 500. The detail that interpolates a value of the client into
  \<^verbatim>\<open>External API Error: ...\<close> keeps that value instead of its rendering as text.
\<close>

datatype detail = Text string | External_API_Error json

datatype failure = HTTPException int detail | Unhandled py_exception

definition try_bind :: "py_exception + 'a \<Rightarrow> ('a \<Rightarrow> py_exception + 'b) \<Rightarrow> py_exception + 'b" where
  "try_bind r f = (case r of Inl e \<Rightarrow> Inl e | Inr x \<Rightarrow> f x)"

text \<open>Module start: the client is built once; a \<^verbatim>\<open>ValueError\<close> leaves \<^verbatim>\<open>tmdb_client = None\<close>.\<close>

definition tmdb_client :: "string option \<Rightarrow> string option \<Rightarrow> MovieAPIClient option" where
  "tmdb_client base_url api_key =
     (case MovieAPIClient_init base_url api_key of
        Inr c \<Rightarrow> Some c
      | Inl (ValueError e) \<Rightarrow> None
      | Inl x \<Rightarrow> None)"

definition root :: json where
  "root = JObj [(''message'',
     JStr ''Movie Info Wrapper API is running. Go to /docs for interactive documentation.'')]"

text \<open>The \<^verbatim>\<open>try\<close> block of \<^verbatim>\<open>get_movie\<close>: five \<^verbatim>\<open>.get\<close> calls, then the model.\<close>

definition map_movie_details :: "pydantic \<Rightarrow> json \<Rightarrow> pyfloat \<Rightarrow> py_exception + MovieDetailsResponse" where
  "map_movie_details P movie_data d =
     try_bind (py_get movie_data ''id'' JNull) (\<lambda>v_id.
     try_bind (py_get movie_data ''title'' JNull) (\<lambda>v_title.
     try_bind (py_get movie_data ''release_date'' JNull) (\<lambda>v_date.
     try_bind (py_get movie_data ''vote_average'' JNull) (\<lambda>v_rating.
     try_bind (py_get movie_data ''overview'' JNull) (\<lambda>v_summary.
       MovieDetailsResponse_new P v_id v_title v_date v_rating v_summary d)))))"

text \<open>
  \<^verbatim>\<open>get_movie\<close>, called by the framework with a path parameter it has already
  validated (the declared bound \<^verbatim>\<open>ge=1\<close> is the framework's to enforce, before the
  handler runs). The two clock readings around the client call are the environment's:
  the duration computed from them is an argument. \<open>get_movie_respond\<close> is the part of
  the handler after the client call, steps 2 and 3 of the source.
\<close>

definition get_movie_respond :: "pydantic \<Rightarrow> pyfloat \<Rightarrow> int \<Rightarrow> json \<Rightarrow> failure + MovieDetailsResponse" where
  "get_movie_respond P d movie_id movie_data =
     (if movie_data = JNull then
        Inl (HTTPException 404 (Text (''Movie with ID '' @ str_int movie_id @ '' not found.'')))
      else if is_error_dict movie_data then
        (case py_get movie_data ''message'' (JStr ''Check client logs.'') of
           Inl e \<Rightarrow> Inl (Unhandled e)
         | Inr m \<Rightarrow> Inl (HTTPException 500 (External_API_Error m)))
      else
        (case map_movie_details P movie_data d of
           Inl e \<Rightarrow>
             Inl (HTTPException 500
               (Text ''Error processing external data structure. Internal service error.''))
         | Inr r \<Rightarrow> Inr r))"

definition get_movie ::
  "pydantic \<Rightarrow> upstream \<Rightarrow> MovieAPIClient option \<Rightarrow> pyfloat \<Rightarrow> int \<Rightarrow> state
     \<Rightarrow> (failure + MovieDetailsResponse) \<times> state" where
  "get_movie P U client d movie_id s =
     (case client of
        None \<Rightarrow>
          (Inl (HTTPException 503
             (Text ''External API Client failed to initialize. Check environment variables.'')), s)
      | Some c \<Rightarrow>
          (case get_movie_details U c movie_id s of
             (Inl e, s') \<Rightarrow> (Inl (Unhandled e), s')
           | (Inr movie_data, s') \<Rightarrow> (get_movie_respond P d movie_id movie_data, s')))"

text \<open>The loop of \<^verbatim>\<open>search_movie\<close>: it stops at the first item that raises.\<close>

fun map_results :: "pydantic \<Rightarrow> json list \<Rightarrow> py_exception + MovieSearchResult list" where
  "map_results P [] = Inr []"
| "map_results P (item # items) =
     try_bind (py_get item ''id'' JNull) (\<lambda>v_id.
     try_bind (py_get item ''title'' JNull) (\<lambda>v_title.
     try_bind (py_get item ''release_date'' JNull) (\<lambda>v_date.
     try_bind (MovieSearchResult_new P v_id v_title v_date) (\<lambda>r.
     try_bind (map_results P items) (\<lambda>rs. Inr (r # rs))))))"

text \<open>The \<^verbatim>\<open>try\<close> block of \<^verbatim>\<open>search_movie\<close>.\<close>

definition map_search :: "pydantic \<Rightarrow> string \<Rightarrow> json \<Rightarrow> pyfloat \<Rightarrow> py_exception + SearchResponse" where
  "map_search P q search_data d =
     try_bind (py_get search_data ''results'' (JList [])) (\<lambda>v_results.
     try_bind (py_iter v_results) (\<lambda>items.
     try_bind (map_results P items) (\<lambda>results_list.
     try_bind (py_get search_data ''total_results'' (JInt (int (length results_list)))) (\<lambda>v_total.
       SearchResponse_new P q v_total results_list d))))"

text \<open>
  \<^verbatim>\<open>search_movie\<close>, with its query parameter validated by the framework
  (\<^verbatim>\<open>min_length=2\<close>) and the duration as an argument. \<open>search_movie_respond\<close> is the
  part of the handler after the client call. The membership test
  \<^verbatim>\<open>'results' not in search_data\<close> stands outside the \<^verbatim>\<open>try\<close> block: what it raises
  leaves the handler.
\<close>

definition search_movie_respond :: "pydantic \<Rightarrow> pyfloat \<Rightarrow> string \<Rightarrow> json \<Rightarrow> failure + SearchResponse" where
  "search_movie_respond P d q search_data =
     (if is_error_dict search_data then
        (case py_get search_data ''message'' (JStr ''Check client logs.'') of
           Inl e \<Rightarrow> Inl (Unhandled e)
         | Inr m \<Rightarrow> Inl (HTTPException 500 (External_API_Error m)))
      else if \<not> truthy search_data then
        Inr \<lparr>s_query = q, s_total_results = 0, s_results = [], s_duration_ms = d\<rparr>
      else
        (case py_contains ''results'' search_data of
           Inl e \<Rightarrow> Inl (Unhandled e)
         | Inr False \<Rightarrow> Inr \<lparr>s_query = q, s_total_results = 0, s_results = [], s_duration_ms = d\<rparr>
         | Inr True \<Rightarrow>
             (case map_search P q search_data d of
                Inl e \<Rightarrow>
                  Inl (HTTPException 500
                    (Text ''Error processing external search results. Internal service error.''))
              | Inr r \<Rightarrow> Inr r)))"

definition search_movie ::
  "pydantic \<Rightarrow> upstream \<Rightarrow> MovieAPIClient option \<Rightarrow> pyfloat \<Rightarrow> string \<Rightarrow> state
     \<Rightarrow> (failure + SearchResponse) \<times> state" where
  "search_movie P U client d q s =
     (case client of
        None \<Rightarrow>
          (Inl (HTTPException 503
             (Text ''External API Client failed to initialize. Check environment variables.'')), s)
      | Some c \<Rightarrow>
          (case search_movies U c q s of
             (Inl e, s') \<Rightarrow> (Inl (Unhandled e), s')
           | (Inr search_data, s') \<Rightarrow> (search_movie_respond P d q search_data, s')))"

text \<open>A sequence of cached client calls, for statements about every such sequence.\<close>

datatype client_call = Details int | Search string

definition call :: "upstream \<Rightarrow> MovieAPIClient \<Rightarrow> client_call \<Rightarrow> state \<Rightarrow> (py_exception + json) \<times> state" where
  "call U self c s =
     (case c of Details movie_id \<Rightarrow> get_movie_details U self movie_id s
              | Search q \<Rightarrow> search_movies U self q s)"

fun run ::
  "upstream \<Rightarrow> MovieAPIClient \<Rightarrow> client_call list \<Rightarrow> state \<Rightarrow> (py_exception + json) list \<times> state" where
  "run U self [] s = ([], s)"
| "run U self (c # cs) s =
     (case call U self c s of (r, s') \<Rightarrow>
        (case run U self cs s' of (rs, s'') \<Rightarrow> (r # rs, s'')))"

text \<open>
  The order of recency of a sequence of keys, the most recently used first: the
  specification's notion, against which the cache's own order is compared.
\<close>

fun recency :: "'k list \<Rightarrow> 'k list \<Rightarrow> 'k list" where
  "recency acc [] = acc"
| "recency acc (k # ks) = recency (k # removeAll k acc) ks"

definition recent :: "'k list \<Rightarrow> 'k list" where
  "recent ks = recency [] ks"

text \<open>The keys of the calls of a sequence that go to one cache, in call order.\<close>

fun details_keys :: "client_call list \<Rightarrow> int list" where
  "details_keys [] = []"
| "details_keys (Details k # cs) = k # details_keys cs"
| "details_keys (Search q # cs) = details_keys cs"

fun search_keys :: "client_call list \<Rightarrow> string list" where
  "search_keys [] = []"
| "search_keys (Details k # cs) = search_keys cs"
| "search_keys (Search q # cs) = q # search_keys cs"

text \<open>
  An entry remains cached along a sequence of calls: the key is in the cache before the
  first call and after every call of the sequence.
\<close>

fun details_entry_kept :: "upstream \<Rightarrow> MovieAPIClient \<Rightarrow> int \<Rightarrow> client_call list \<Rightarrow> state \<Rightarrow> bool" where
  "details_entry_kept U self k [] s = (map_of (details_cache s) k \<noteq> None)"
| "details_entry_kept U self k (c # cs) s =
     (map_of (details_cache s) k \<noteq> None \<and> details_entry_kept U self k cs (snd (call U self c s)))"

fun search_entry_kept :: "upstream \<Rightarrow> MovieAPIClient \<Rightarrow> string \<Rightarrow> client_call list \<Rightarrow> state \<Rightarrow> bool" where
  "search_entry_kept U self q [] s = (map_of (search_cache s) q \<noteq> None)"
| "search_entry_kept U self q (c # cs) s =
     (map_of (search_cache s) q \<noteq> None \<and> search_entry_kept U self q cs (snd (call U self c s)))"


section \<open>Upstreams and inputs of the examples\<close>

text \<open>A client built from a set credential, and upstreams with a fixed behaviour.\<close>

definition demo_client :: MovieAPIClient where
  "demo_client =
     \<lparr>BASE_URL = Some ''https://api.themoviedb.org/3'', API_KEY = Some ''secret'',
      headers = [(''Authorization'', ''Bearer secret''), (''accept'', ''application/json'')]\<rparr>"

definition always :: "http_outcome \<Rightarrow> upstream" where
  "always out h r = out"

definition first_then :: "http_outcome \<Rightarrow> http_outcome \<Rightarrow> upstream" where
  "first_then a b h r = (if h = [] then a else b)"

definition counting :: upstream where
  "counting h r = Response 200 (Inr (JInt (int (length h))))"

definition numbered_queries :: "nat \<Rightarrow> client_call list" where
  "numbered_queries n = map (\<lambda>i. Search (str_nat i)) [0..<n]"

definition numbered_ids :: "nat \<Rightarrow> client_call list" where
  "numbered_ids n = map (\<lambda>i. Details (int i)) [0..<n]"

definition recovering :: upstream where
  "recovering = first_then (RequestFailure ''Connection refused'')
     (Response 200 (Inr (JObj [(''id'', JInt 24428), (''title'', JStr ''The Avengers'')])))"

definition ok :: "json \<Rightarrow> http_outcome" where
  "ok j = Response 200 (Inr j)"

definition avengers_item :: json where
  "avengers_item = JObj [(''id'', JInt 24428), (''title'', JStr ''The Avengers''),
     (''release_date'', JStr ''2012-04-25'')]"

definition not_json :: "string + json" where
  "not_json = Inl ''Expecting value: line 1 column 1 (char 0)''"

section \<open>The cache: hits, misses and recency\<close>

lemma lru_hit:
  "map_of cache k = Some v \<Longrightarrow>
   lru_cache_call n f k cache w = (Inr v, (k, v) # filter (\<lambda>kv. fst kv \<noteq> k) cache, w)"
  by (simp add: lru_cache_call_def)

lemma lru_miss_value:
  "map_of cache k = None \<Longrightarrow> f k w = (Inr v, w') \<Longrightarrow>
   lru_cache_call n f k cache w =
     (Inr v, (if n \<le> length cache then (k, v) # butlast cache else (k, v) # cache), w')"
  by (simp add: lru_cache_call_def)

lemma lru_miss_exn:
  "map_of cache k = None \<Longrightarrow> f k w = (Inl e, w') \<Longrightarrow>
   lru_cache_call n f k cache w = (Inl e, cache, w')"
  by (simp add: lru_cache_call_def)

lemma lru_cases:
  obtains (hit) v where "map_of cache k = Some v"
      "lru_cache_call n f k cache w = (Inr v, (k, v) # filter (\<lambda>kv. fst kv \<noteq> k) cache, w)"
  | (miss) v w' where "map_of cache k = None" "f k w = (Inr v, w')"
      "lru_cache_call n f k cache w =
         (Inr v, (if n \<le> length cache then (k, v) # butlast cache else (k, v) # cache), w')"
  | (exn) e w' where "map_of cache k = None" "f k w = (Inl e, w')"
      "lru_cache_call n f k cache w = (Inl e, cache, w')"
proof (cases "map_of cache k")
  case (Some v)
  then show ?thesis using hit lru_hit by fastforce
next
  case None
  obtain r w' where fw: "f k w = (r, w')" by (cases "f k w")
  show ?thesis
  proof (cases r)
    case (Inl e)
    then show ?thesis using exn None fw lru_miss_exn by fastforce
  next
    case (Inr v)
    then show ?thesis using miss None fw lru_miss_value by fastforce
  qed
qed

lemma filter_key_shorter:
  assumes "map_of cache k = Some v"
  shows "length (filter (\<lambda>kv. fst kv \<noteq> k) cache) < length cache"
proof -
  from assms have "(k, v) \<in> set cache" by (rule map_of_SomeD)
  then show ?thesis by (intro length_filter_less[where x="(k, v)"]) auto
qed

lemma lru_length:
  assumes "0 < n" "length cache \<le> n"
  shows "length (fst (snd (lru_cache_call n f k cache w))) \<le> n"
proof (cases rule: lru_cases[of cache k n f w])
  case (hit v)
  with filter_key_shorter[OF hit(1)] assms show ?thesis by simp
next
  case (miss v w')
  with assms show ?thesis by auto
next
  case (exn e w')
  with assms show ?thesis by simp
qed

lemma removeAll_take_in:
  "distinct L \<Longrightarrow> k \<in> set (take n L) \<Longrightarrow> removeAll k (take n L) = take (n - 1) (removeAll k L)"
proof (induction L arbitrary: n)
  case Nil
  then show ?case by simp
next
  case (Cons a L)
  show ?case
  proof (cases n)
    case 0
    with Cons.prems show ?thesis by simp
  next
    case (Suc m)
    show ?thesis
    proof (cases "a = k")
      case True
      with Cons.prems Suc have "k \<notin> set L" by simp
      then have "k \<notin> set (take m L)" by (meson in_set_takeD)
      with True Suc \<open>k \<notin> set L\<close> show ?thesis by (simp add: removeAll_id)
    next
      case False
      with Cons.prems Suc have in_m: "k \<in> set (take m L)" and d: "distinct L" by auto
      then have "0 < m" by (cases m) auto
      with Cons.IH[OF d in_m] False Suc show ?thesis
        by (cases m) auto
    qed
  qed
qed

lemma take_removeAll_notin:
  "k \<notin> set (take n L) \<Longrightarrow> take n (removeAll k L) = take n L"
proof (induction L arbitrary: n)
  case Nil
  then show ?case by simp
next
  case (Cons a L)
  then show ?case by (cases n) auto
qed

lemma map_fst_filter_key:
  "map fst (filter (\<lambda>kv. fst kv \<noteq> k) cache) = removeAll k (map fst cache)"
  by (induction cache) auto

lemma lru_keys:
  assumes n: "0 < n" and d: "distinct L" and keys: "map fst cache = take n L"
    and call: "lru_cache_call n f k cache w = (Inr v, cache', w')"
  shows "map fst cache' = take n (k # removeAll k L)"
proof (cases rule: lru_cases[of cache k n f w])
  case (hit u)
  then have "k \<in> set (map fst cache)" by (metis map_of_eq_None_iff option.distinct(1) set_map)
  with keys have kin: "k \<in> set (take n L)" by simp
  from hit call have "cache' = (k, u) # filter (\<lambda>kv. fst kv \<noteq> k) cache" by simp
  then have "map fst cache' = k # removeAll k (take n L)"
    by (simp add: map_fst_filter_key keys)
  also have "\<dots> = k # take (n - 1) (removeAll k L)"
    using removeAll_take_in[OF d kin] by simp
  also have "\<dots> = take n (k # removeAll k L)"
    using n by (cases n) auto
  finally show ?thesis .
next
  case (miss u w'')
  then have "k \<notin> set (map fst cache)" by (simp add: map_of_eq_None_iff)
  with keys have knot: "k \<notin> set (take n L)" by simp
  have len: "length cache = length (take n L)" using keys by (metis length_map)
  obtain m where m: "n = Suc m" using n by (cases n) auto
  have knot': "k \<notin> set (take m L)" 
    using knot m set_take_subset_set_take[of m n L] by auto
  show ?thesis
  proof (cases "n \<le> length cache")
    case True
    with miss call have "cache' = (k, u) # butlast cache" by simp
    then have "map fst cache' = k # butlast (take n L)" by (simp add: map_butlast keys)
    also have "butlast (take n L) = take m L"
      using True len m by (simp add: butlast_take)
    also have "k # take m L = take n (k # removeAll k L)"
      using m take_removeAll_notin[OF knot'] by simp
    finally show ?thesis .
  next
    case False
    with miss call have "cache' = (k, u) # cache" by simp
    then have "map fst cache' = k # take n L" by (simp add: keys)
    moreover from False len have "length L < n" by simp
    then have "take n L = L" "take m L = L" using m by auto
    ultimately show ?thesis using m take_removeAll_notin[OF knot'] by simp
  qed
next
  case (exn e w'')
  with call show ?thesis by simp
qed

lemma details_body_sent:
  "snd (get_movie_details_body U self k w) = w @ [details_request self k]"
  by (simp add: get_movie_details_body_def Let_def split: http_outcome.splits sum.splits)

lemma search_body_sent:
  "snd (search_movies_body U self q w) = w @ [search_request self q]"
  by (simp add: search_movies_body_def Let_def split: http_outcome.splits sum.splits)

lemma details_unfold:
  "get_movie_details U self k s = (r, s') \<longleftrightarrow>
     (\<exists>c w. lru_cache_call 128 (get_movie_details_body U self) k (details_cache s) (sent s) = (r, c, w)
        \<and> s' = s\<lparr>details_cache := c, sent := w\<rparr>)"
  by (auto simp: get_movie_details_def split: prod.splits)

lemma search_unfold:
  "search_movies U self q s = (r, s') \<longleftrightarrow>
     (\<exists>c w. lru_cache_call 32 (search_movies_body U self) q (search_cache s) (sent s) = (r, c, w)
        \<and> s' = s\<lparr>search_cache := c, sent := w\<rparr>)"
  by (auto simp: search_movies_def split: prod.splits)

lemma details_hit:
  assumes "map_of (details_cache s) k = Some v"
  shows "fst (get_movie_details U self k s) = Inr v"
    and "sent (snd (get_movie_details U self k s)) = sent s"
    and "map_of (details_cache (snd (get_movie_details U self k s))) k = Some v"
  using assms by (simp_all add: get_movie_details_def lru_hit)

lemma search_hit:
  assumes "map_of (search_cache s) q = Some v"
  shows "fst (search_movies U self q s) = Inr v"
    and "sent (snd (search_movies U self q s)) = sent s"
    and "map_of (search_cache (snd (search_movies U self q s))) q = Some v"
  using assms by (simp_all add: search_movies_def lru_hit)

lemma details_miss_sent:
  assumes "map_of (details_cache s) k = None"
  shows "sent (snd (get_movie_details U self k s)) = sent s @ [details_request self k]"
proof -
  obtain r w where b: "get_movie_details_body U self k (sent s) = (r, w)"
    by (cases "get_movie_details_body U self k (sent s)")
  then have w: "w = sent s @ [details_request self k]"
    using details_body_sent[of U self k "sent s"] by simp
  show ?thesis
    using assms b w by (cases r) (simp_all add: get_movie_details_def lru_miss_value lru_miss_exn)
qed

lemma search_miss_sent:
  assumes "map_of (search_cache s) q = None"
  shows "sent (snd (search_movies U self q s)) = sent s @ [search_request self q]"
proof -
  obtain r w where b: "search_movies_body U self q (sent s) = (r, w)"
    by (cases "search_movies_body U self q (sent s)")
  then have w: "w = sent s @ [search_request self q]"
    using search_body_sent[of U self q "sent s"] by simp
  show ?thesis
    using assms b w by (cases r) (simp_all add: search_movies_def lru_miss_value lru_miss_exn)
qed

lemma lru_stored:
  assumes "lru_cache_call n f k cache w = (Inr v, cache', w')"
  shows "map_of cache' k = Some v"
proof (cases rule: lru_cases[of cache k n f w])
  case (hit u)
  with assms show ?thesis by auto
next
  case (miss u w'')
  with assms show ?thesis by (auto split: if_splits)
next
  case (exn e w'')
  with assms show ?thesis by simp
qed

lemma details_stored:
  assumes "get_movie_details U self k s = (Inr v, s')"
  shows "map_of (details_cache s') k = Some v"
  using assms lru_stored by (fastforce simp: details_unfold)

lemma search_stored:
  assumes "search_movies U self q s = (Inr v, s')"
  shows "map_of (search_cache s') q = Some v"
  using assms lru_stored by (fastforce simp: search_unfold)


lemma details_frame:
  "search_cache (snd (get_movie_details U self k s)) = search_cache s"
  by (simp add: get_movie_details_def split: prod.splits)

lemma search_frame:
  "details_cache (snd (search_movies U self q s)) = details_cache s"
  by (simp add: search_movies_def split: prod.splits)

lemma details_length:
  "length (details_cache s) \<le> 128 \<Longrightarrow> length (details_cache (snd (get_movie_details U self k s))) \<le> 128"
  using lru_length[of 128 "details_cache s" "get_movie_details_body U self" k "sent s"]
  by (auto simp: get_movie_details_def split: prod.splits)

lemma search_length:
  "length (search_cache s) \<le> 32 \<Longrightarrow> length (search_cache (snd (search_movies U self q s))) \<le> 32"
  using lru_length[of 32 "search_cache s" "search_movies_body U self" q "sent s"]
  by (auto simp: search_movies_def split: prod.splits)

lemma call_bounded:
  assumes "length (details_cache s) \<le> 128 \<and> length (search_cache s) \<le> 32"
  shows "length (details_cache (snd (call U self c s))) \<le> 128
       \<and> length (search_cache (snd (call U self c s))) \<le> 32"
  using assms
  by (cases c) (simp_all add: call_def details_length search_length details_frame search_frame)

lemma run_Cons_snd:
  "snd (run U self (c # cs) s) = snd (run U self cs (snd (call U self c s)))"
  by (simp split: prod.splits)

lemma run_Cons_fst:
  "fst (run U self (c # cs) s) = fst (call U self c s) # fst (run U self cs (snd (call U self c s)))"
  by (simp split: prod.splits)

lemma run_bounded:
  assumes "length (details_cache s) \<le> 128 \<and> length (search_cache s) \<le> 32"
  shows "length (details_cache (snd (run U self cs s))) \<le> 128
       \<and> length (search_cache (snd (run U self cs s))) \<le> 32"
  using assms
proof (induction cs arbitrary: s)
  case Nil
  then show ?case by simp
next
  case (Cons c cs)
  obtain r s1 where c1: "call U self c s = (r, s1)" by (cases "call U self c s")
  with call_bounded[OF Cons.prems, of U self c]
  have "length (details_cache s1) \<le> 128 \<and> length (search_cache s1) \<le> 32" by simp
  from Cons.IH[OF this] c1 show ?case by (simp only: run_Cons_snd snd_conv)
qed

lemma details_keys_step:
  assumes "distinct L" "map fst (details_cache s) = take 128 L"
    and "get_movie_details U self k s = (Inr v, s')"
  shows "map fst (details_cache s') = take 128 (k # removeAll k L)"
proof -
  from assms(3) obtain c w where
    "lru_cache_call 128 (get_movie_details_body U self) k (details_cache s) (sent s) = (Inr v, c, w)"
    and "s' = s\<lparr>details_cache := c, sent := w\<rparr>"
    by (auto simp: details_unfold)
  with lru_keys[of 128 L "details_cache s"] assms(1,2) show ?thesis by simp
qed

lemma search_keys_step:
  assumes "distinct L" "map fst (search_cache s) = take 32 L"
    and "search_movies U self q s = (Inr v, s')"
  shows "map fst (search_cache s') = take 32 (q # removeAll q L)"
proof -
  from assms(3) obtain c w where
    "lru_cache_call 32 (search_movies_body U self) q (search_cache s) (sent s) = (Inr v, c, w)"
    and "s' = s\<lparr>search_cache := c, sent := w\<rparr>"
    by (auto simp: search_unfold)
  with lru_keys[of 32 L "search_cache s"] assms(1,2) show ?thesis by simp
qed

lemma run_recency:
  assumes "distinct Ld" "distinct Ls"
    and "map fst (details_cache s) = take 128 Ld" "map fst (search_cache s) = take 32 Ls"
    and "list_all (\<lambda>r. \<not> isl r) (fst (run U self cs s))"
  shows "map fst (details_cache (snd (run U self cs s))) = take 128 (recency Ld (details_keys cs))
       \<and> map fst (search_cache (snd (run U self cs s))) = take 32 (recency Ls (search_keys cs))"
  using assms
proof (induction cs arbitrary: s Ld Ls)
  case Nil
  then show ?case by simp
next
  case (Cons c cs)
  obtain r s1 where c1: "call U self c s = (r, s1)" by (cases "call U self c s")
  with Cons.prems(5) obtain v where r: "r = Inr v"
    by (cases r) (simp_all add: run_Cons_fst del: run.simps)
  from Cons.prems(5) c1 have rest: "list_all (\<lambda>r. \<not> isl r) (fst (run U self cs s1))"
    by (simp add: run_Cons_fst del: run.simps)
  show ?case
  proof (cases c)
    case (Details k)
    with c1 r have g: "get_movie_details U self k s = (Inr v, s1)" by (simp add: call_def)
    have d1: "map fst (details_cache s1) = take 128 (k # removeAll k Ld)"
      using details_keys_step[OF Cons.prems(1) Cons.prems(3) g] .
    have s1: "map fst (search_cache s1) = take 32 Ls"
      using details_frame[of U self k s] g Cons.prems(4) by simp
    have "distinct (k # removeAll k Ld)" using Cons.prems(1) by (simp add: distinct_removeAll)
    from Cons.IH[OF this Cons.prems(2) d1 s1 rest] c1 Details show ?thesis
      by (simp add: run_Cons_snd del: run.simps)
  next
    case (Search q)
    with c1 r have g: "search_movies U self q s = (Inr v, s1)" by (simp add: call_def)
    have s1: "map fst (search_cache s1) = take 32 (q # removeAll q Ls)"
      using search_keys_step[OF Cons.prems(2) Cons.prems(4) g] .
    have d1: "map fst (details_cache s1) = take 128 Ld"
      using search_frame[of U self q s] g Cons.prems(3) by simp
    have "distinct (q # removeAll q Ls)" using Cons.prems(2) by (simp add: distinct_removeAll)
    from Cons.IH[OF Cons.prems(1) this d1 s1 rest] c1 Search show ?thesis
      by (simp add: run_Cons_snd del: run.simps)
  qed
qed

lemma recency_distinct:
  "distinct ks \<Longrightarrow> set ks \<inter> set acc = {} \<Longrightarrow> recency acc ks = rev ks @ acc"
proof (induction ks arbitrary: acc)
  case Nil
  then show ?case by simp
next
  case (Cons k ks)
  then have "removeAll k acc = acc" by (simp add: removeAll_id)
  moreover from Cons.prems have "set ks \<inter> set (k # acc) = {}" by auto
  ultimately show ?case using Cons.IH[of "k # acc"] Cons.prems by simp
qed

lemma take_rev_all_but_first:
  "length ks = Suc n \<Longrightarrow> take n (rev ks) = rev (tl ks)"
  by (cases ks) (simp_all add: take_rev)

section \<open>Client results on a miss\<close>

lemma details_body_failure:
  "U w (details_request self k) = RequestFailure e \<Longrightarrow>
   fst (get_movie_details_body U self k w) =
     Inr (JObj [(''error'', JStr ''Network or Connection error''), (''message'', JStr e)])"
  by (simp add: get_movie_details_body_def)

lemma search_body_failure:
  "U w (search_request self q) = RequestFailure e \<Longrightarrow>
   fst (search_movies_body U self q w) =
     Inr (JObj [(''error'', JStr ''Network or connection error''), (''message'', JStr e)])"
  by (simp add: search_movies_body_def)

lemma details_miss_result:
  assumes "map_of (details_cache s) k = None"
  shows "fst (get_movie_details U self k s) = fst (get_movie_details_body U self k (sent s))"
proof -
  obtain r w where b: "get_movie_details_body U self k (sent s) = (r, w)"
    by (cases "get_movie_details_body U self k (sent s)")
  show ?thesis
    using assms b by (cases r) (simp_all add: get_movie_details_def lru_miss_value lru_miss_exn)
qed

lemma search_miss_result:
  assumes "map_of (search_cache s) q = None"
  shows "fst (search_movies U self q s) = fst (search_movies_body U self q (sent s))"
proof -
  obtain r w where b: "search_movies_body U self q (sent s) = (r, w)"
    by (cases "search_movies_body U self q (sent s)")
  show ?thesis
    using assms b by (cases r) (simp_all add: search_movies_def lru_miss_value lru_miss_exn)
qed


section \<open>Construction and the missing credential\<close>

lemma client_built_when_key_set:
  "k \<noteq> [] \<Longrightarrow> tmdb_client base_url (Some k) \<noteq> None"
  by (simp add: tmdb_client_def MovieAPIClient_init_def)

lemma demo_client_built:
  "tmdb_client (Some ''https://api.themoviedb.org/3'') (Some ''secret'') = Some demo_client"
  by (simp add: tmdb_client_def MovieAPIClient_init_def demo_client_def)

text \<open>
  C6. When the credential is absent (unset or empty), constructing the client fails
  with the configuration error, the module keeps no client, and from then on every call
  of the two movie-data handlers, whatever its argument and the state, raises the
  HTTP 503 exception and leaves the state untouched; the root handler, which does not
  look at the client, still returns its message.
\<close>

theorem config_error_scoped:
  assumes "api_key = None \<or> api_key = Some []"
  shows "MovieAPIClient_init base_url api_key =
           Inl (ValueError ''TMDB_API_KEY environmental variable value not set. Please check your .env file.'')
       \<and> tmdb_client base_url api_key = None
       \<and> get_movie P U (tmdb_client base_url api_key) d movie_id s =
           (Inl (HTTPException 503
              (Text ''External API Client failed to initialize. Check environment variables.'')), s)
       \<and> search_movie P U (tmdb_client base_url api_key) d q s =
           (Inl (HTTPException 503
              (Text ''External API Client failed to initialize. Check environment variables.'')), s)
       \<and> root = JObj [(''message'',
           JStr ''Movie Info Wrapper API is running. Go to /docs for interactive documentation.'')]"
proof -
  from assms have init: "MovieAPIClient_init base_url api_key =
      Inl (ValueError ''TMDB_API_KEY environmental variable value not set. Please check your .env file.'')"
    by (auto simp: MovieAPIClient_init_def)
  then have none: "tmdb_client base_url api_key = None"
    by (simp add: tmdb_client_def)
  show ?thesis
    by (simp add: init none get_movie_def search_movie_def root_def)
qed

theorem config_error_scoped_witness:
  "tmdb_client (Some ''https://api.themoviedb.org/3'') None = None
   \<and> get_movie strict counting (tmdb_client (Some ''https://api.themoviedb.org/3'') None) 0 24428 init_state =
       (Inl (HTTPException 503
          (Text ''External API Client failed to initialize. Check environment variables.'')), init_state)
   \<and> search_movie strict counting (tmdb_client (Some ''https://api.themoviedb.org/3'') None) 0 ''avengers'' init_state =
       (Inl (HTTPException 503
          (Text ''External API Client failed to initialize. Check environment variables.'')), init_state)"
proof -
  have absent: "(None :: string option) = None \<or> (None :: string option) = Some []" by simp
  from config_error_scoped[OF absent, of "Some ''https://api.themoviedb.org/3''" strict counting 0 24428 init_state "''avengers''"]
  show ?thesis by blast
qed


section \<open>Transport failures\<close>

text \<open>
  C7. When the upstream answers the request of a call with a transport failure, the
  call (a miss: the key is not cached) returns the error dictionary tagged as a network
  or connection error whose message is the failure's message, and the log of requests
  grows by exactly that one request: a single attempt, no retry. This holds for the
  detail lookup and for the search.
\<close>

theorem network_failure_single_attempt:
  "(map_of (details_cache s) movie_id = None
      \<and> U (sent s) (details_request self movie_id) = RequestFailure e \<longrightarrow>
        fst (get_movie_details U self movie_id s) =
          Inr (JObj [(''error'', JStr ''Network or Connection error''), (''message'', JStr e)])
      \<and> sent (snd (get_movie_details U self movie_id s)) = sent s @ [details_request self movie_id])
   \<and> (map_of (search_cache s) q = None
      \<and> U (sent s) (search_request self q) = RequestFailure e' \<longrightarrow>
        fst (search_movies U self q s) =
          Inr (JObj [(''error'', JStr ''Network or connection error''), (''message'', JStr e')])
      \<and> sent (snd (search_movies U self q s)) = sent s @ [search_request self q])"
  by (simp add: details_miss_result search_miss_result details_miss_sent search_miss_sent
      details_body_failure search_body_failure)

theorem network_failure_single_attempt_witness:
  "fst (get_movie_details (always (RequestFailure ''Connection timed out'')) demo_client 24428 init_state) =
     Inr (JObj [(''error'', JStr ''Network or Connection error''), (''message'', JStr ''Connection timed out'')])
   \<and> sent (snd (get_movie_details (always (RequestFailure ''Connection timed out'')) demo_client 24428 init_state)) =
       [details_request demo_client 24428]
   \<and> fst (search_movies (always (RequestFailure ''Connection timed out'')) demo_client ''avengers'' init_state) =
     Inr (JObj [(''error'', JStr ''Network or connection error''), (''message'', JStr ''Connection timed out'')])
   \<and> sent (snd (search_movies (always (RequestFailure ''Connection timed out'')) demo_client ''avengers'' init_state)) =
       [search_request demo_client ''avengers'']"
  using network_failure_single_attempt[of init_state 24428 "always (RequestFailure ''Connection timed out'')"
      demo_client "''Connection timed out''" "''avengers''" "''Connection timed out''"]
  by (simp add: init_state_def always_def)

section \<open>The handlers on a client result\<close>

lemma py_get_Inl:
  "py_get j k dflt = Inl x \<longleftrightarrow> (\<forall>dd. j \<noteq> JObj dd) \<and> x = AttributeError"
  by (cases j) auto

lemma py_get_Inr:
  "py_get j k dflt = Inr m \<longleftrightarrow> (\<exists>dd. j = JObj dd \<and> m = dict_get dd k dflt)"
  by (cases j) auto

lemma get_movie_value:
  "fst (get_movie_details U self k s) = Inr v \<Longrightarrow>
   fst (get_movie P U (Some self) d k s) = get_movie_respond P d k v"
  by (cases "get_movie_details U self k s") (simp add: get_movie_def)

lemma get_movie_raised:
  "fst (get_movie_details U self k s) = Inl e \<Longrightarrow>
   fst (get_movie P U (Some self) d k s) = Inl (Unhandled e)"
  by (cases "get_movie_details U self k s") (simp add: get_movie_def)

lemma search_movie_value:
  "fst (search_movies U self q s) = Inr v \<Longrightarrow>
   fst (search_movie P U (Some self) d q s) = search_movie_respond P d q v"
  by (cases "search_movies U self q s") (simp add: search_movie_def)

lemma search_movie_raised:
  "fst (search_movies U self q s) = Inl e \<Longrightarrow>
   fst (search_movie P U (Some self) d q s) = Inl (Unhandled e)"
  by (cases "search_movies U self q s") (simp add: search_movie_def)

lemma details_body_404:
  "U w (details_request self k) = Response 404 body \<Longrightarrow>
   fst (get_movie_details_body U self k w) = Inr JNull"
  by (simp add: get_movie_details_body_def raises_for_status_def)

lemma search_body_error_status:
  assumes "U w (search_request self q) = Response status body" "raises_for_status status"
  shows "fst (search_movies_body U self q w) \<noteq> Inr JNull"
    and "body = Inr (JObj dd) \<Longrightarrow> fst (search_movies_body U self q w) =
           Inr (JObj [(''error'', JStr (''API Error: '' @ str_int status)),
                      (''message'', dict_get dd ''status_message'' (JStr ''Unknown API error''))])"
  using assms
  by (auto simp: search_movies_body_def Let_def split: sum.splits)

lemma search_body_null:
  assumes "fst (search_movies_body U self q w) = Inr JNull"
  shows "\<exists>status. U w (search_request self q) = Response status (Inr JNull) \<and> \<not> raises_for_status status"
  using assms
  by (auto simp: search_movies_body_def Let_def split: http_outcome.splits sum.splits if_splits)

lemma search_respond_never_404:
  "search_movie_respond P d q v \<noteq> Inl (HTTPException 404 dt)"
  by (auto simp: search_movie_respond_def split: sum.splits bool.splits)

lemma search_movie_never_404:
  "fst (search_movie P U client d q s) \<noteq> Inl (HTTPException 404 dt)"
proof (cases client)
  case None
  then show ?thesis by (simp add: search_movie_def)
next
  case (Some c)
  obtain r s' where c1: "search_movies U c q s = (r, s')" by (cases "search_movies U c q s")
  show ?thesis
    using Some c1 search_respond_never_404[of P d q _ dt]
    by (cases r) (simp_all add: search_movie_def)
qed

text \<open>The definitions that evaluate a call on a concrete input.\<close>

lemmas eval_defs =
  get_movie_details_def search_movies_def lru_cache_call_def
  get_movie_details_body_def search_movies_body_def details_request_def search_request_def
  get_movie_def search_movie_def get_movie_respond_def search_movie_respond_def
  init_state_def demo_client_def always_def first_then_def counting_def not_json_def
  raises_for_status_def str_int_def str_nat.simps str_opt_def digit_char_def dict_get_def dict_has_def
  map_movie_details_def map_search_def try_bind_def
  MovieDetailsResponse_new_def MovieSearchResult_new_def SearchResponse_new_def
  validate_int_def validate_str_def validate_optional_str_def validate_float_def strict_def


section \<open>Not found\<close>

text \<open>
  C5, as the code has it. A detail lookup (a miss) whose request the upstream answers
  with status 404 returns the not-found indicator \<^verbatim>\<open>None\<close>, whatever the body, and the handler raises
  HTTP 404 for it. The search never turns an error status into the indicator: on a
  miss answered with a status from 400 to 599, 404 included, its result is not
  \<^verbatim>\<open>None\<close>; the search returns \<^verbatim>\<open>None\<close> on a miss only when the upstream's own body,
  under a status that is no error, is the JSON value \<^verbatim>\<open>null\<close>; and the search handler
  never raises HTTP 404.
\<close>

theorem not_found_semantics:
  "(map_of (details_cache s) movie_id = None
      \<and> U (sent s) (details_request self movie_id) = Response 404 body \<longrightarrow>
        fst (get_movie_details U self movie_id s) = Inr JNull
      \<and> fst (get_movie P U (Some self) d movie_id s) =
          Inl (HTTPException 404 (Text (''Movie with ID '' @ str_int movie_id @ '' not found.''))))
   \<and> (map_of (search_cache s) q = None
      \<and> U (sent s) (search_request self q) = Response status body' \<and> raises_for_status status \<longrightarrow>
        fst (search_movies U self q s) \<noteq> Inr JNull)
   \<and> (map_of (search_cache s) q = None \<and> fst (search_movies U self q s) = Inr JNull \<longrightarrow>
        (\<exists>st. U (sent s) (search_request self q) = Response st (Inr JNull) \<and> \<not> raises_for_status st))
   \<and> fst (search_movie P U client d q s) \<noteq> Inl (HTTPException 404 dt)"
proof -
  have a: "fst (get_movie_details U self movie_id s) = Inr JNull
      \<and> fst (get_movie P U (Some self) d movie_id s) =
          Inl (HTTPException 404 (Text (''Movie with ID '' @ str_int movie_id @ '' not found.'')))"
    if "map_of (details_cache s) movie_id = None"
      "U (sent s) (details_request self movie_id) = Response 404 body"
  proof -
    from that have r: "fst (get_movie_details U self movie_id s) = Inr JNull"
      by (simp add: details_miss_result details_body_404)
    from get_movie_value[OF r] r show ?thesis by (simp add: get_movie_respond_def)
  qed
  have b: "fst (search_movies U self q s) \<noteq> Inr JNull"
    if "map_of (search_cache s) q = None"
      "U (sent s) (search_request self q) = Response status body'" "raises_for_status status"
    using that search_body_error_status(1)[of U "sent s" self q status body']
    by (simp add: search_miss_result)
  have c: "\<exists>st. U (sent s) (search_request self q) = Response st (Inr JNull) \<and> \<not> raises_for_status st"
    if "map_of (search_cache s) q = None" "fst (search_movies U self q s) = Inr JNull"
    using that search_body_null[of U self q "sent s"] by (simp add: search_miss_result)
  from a b c search_movie_never_404 show ?thesis by blast
qed

theorem not_found_semantics_witness:
  "fst (get_movie_details (always (Response 404 not_json)) demo_client 999999 init_state) = Inr JNull
   \<and> fst (get_movie strict (always (Response 404 not_json)) (Some demo_client) 0 999999 init_state) =
       Inl (HTTPException 404 (Text ''Movie with ID 999999 not found.''))
   \<and> fst (search_movies (always (Response 404 (Inr (JObj [])))) demo_client ''zz'' init_state) \<noteq> Inr JNull"
proof -
  have miss: "map_of (details_cache init_state) 999999 = None" "map_of (search_cache init_state) ''zz'' = None"
    by (simp_all add: init_state_def)
  have up: "always (Response 404 not_json) (sent init_state) (details_request demo_client 999999) = Response 404 not_json"
    "always (Response 404 (Inr (JObj []))) (sent init_state) (search_request demo_client ''zz'') = Response 404 (Inr (JObj []))"
    "raises_for_status 404"
    by (simp_all add: always_def raises_for_status_def)
  have str: "str_int 999999 = ''999999''" by (simp add: str_int_def str_nat.simps digit_char_def)
  from not_found_semantics[where s = init_state and movie_id = 999999 and U = "always (Response 404 not_json)"
      and self = demo_client and body = not_json and P = strict and d = 0] miss(1) up(1) str
  have d: "fst (get_movie_details (always (Response 404 not_json)) demo_client 999999 init_state) = Inr JNull
   \<and> fst (get_movie strict (always (Response 404 not_json)) (Some demo_client) 0 999999 init_state) =
       Inl (HTTPException 404 (Text ''Movie with ID 999999 not found.''))"
    by simp
  from not_found_semantics[where s = init_state and U = "always (Response 404 (Inr (JObj [])))"
      and self = demo_client and q = "''zz''" and status = 404 and body' = "Inr (JObj [])"] miss(2) up(2,3)
  have e: "fst (search_movies (always (Response 404 (Inr (JObj [])))) demo_client ''zz'' init_state) \<noteq> Inr JNull"
    by blast
  from d e show ?thesis by simp
qed


section \<open>Exceptions that leave the client\<close>

text \<open>
  When do the two method bodies raise: exactly on an error status (other than 404 for
  the detail lookup) whose body is not JSON, or is JSON but not an object. With an
  object body the error dictionary is returned, with the fallback message when the
  object has no \<^verbatim>\<open>status_message\<close>.
\<close>

lemma details_body_raises_iff:
  "fst (get_movie_details_body U self k w) = Inl x \<longleftrightarrow>
     (\<exists>st b. U w (details_request self k) = Response st b \<and> raises_for_status st \<and> st \<noteq> 404
        \<and> (case b of Inl e \<Rightarrow> x = JSONDecodeError e
                    | Inr j \<Rightarrow> (\<forall>dd. j \<noteq> JObj dd) \<and> x = AttributeError))"
  by (cases "U w (details_request self k)")
     (auto simp: get_movie_details_body_def Let_def py_get_Inl py_get_Inr split: sum.splits)

lemma search_body_raises_iff:
  "fst (search_movies_body U self q w) = Inl x \<longleftrightarrow>
     (\<exists>st b. U w (search_request self q) = Response st b \<and> raises_for_status st
        \<and> (case b of Inl e \<Rightarrow> x = JSONDecodeError e
                    | Inr j \<Rightarrow> (\<forall>dd. j \<noteq> JObj dd) \<and> x = AttributeError))"
  by (cases "U w (search_request self q)")
     (auto simp: search_movies_body_def Let_def py_get_Inl py_get_Inr split: sum.splits)

lemma details_body_fallback_message:
  assumes "U w (details_request self k) = Response st (Inr (JObj dd))" "raises_for_status st" "st \<noteq> 404"
  shows "fst (get_movie_details_body U self k w) =
     Inr (JObj [(''error'', JStr (''API error : '' @ str_int st)),
                (''message'', case map_of dd ''status_message'' of
                                None \<Rightarrow> JStr ''Unknown API error'' | Some m \<Rightarrow> m)])"
  using assms by (simp add: get_movie_details_body_def dict_get_def)

text \<open>
  C4. The claim is that no upstream outcome makes an exception leave the client, and
  that an unparseable error body yields the fallback message. The code does not do
  this: with status 502 and a body that is not JSON, \<^verbatim>\<open>response.json()\<close> raises
  inside the \<^verbatim>\<open>HTTPError\<close> handler, the exception leaves both client methods and
  then both handlers; the search does the same on a 404 with such a body, and a JSON
  body that is not an object raises \<^verbatim>\<open>AttributeError\<close> on \<^verbatim>\<open>.get\<close>.
\<close>

theorem unparseable_error_body_escapes:
  "fst (get_movie_details (always (Response 502 not_json)) demo_client 24428 init_state) =
     Inl (JSONDecodeError ''Expecting value: line 1 column 1 (char 0)'')
   \<and> fst (search_movies (always (Response 502 not_json)) demo_client ''avengers'' init_state) =
     Inl (JSONDecodeError ''Expecting value: line 1 column 1 (char 0)'')
   \<and> fst (get_movie strict (always (Response 502 not_json)) (Some demo_client) 0 24428 init_state) =
     Inl (Unhandled (JSONDecodeError ''Expecting value: line 1 column 1 (char 0)''))
   \<and> fst (search_movie strict (always (Response 502 not_json)) (Some demo_client) 0 ''avengers'' init_state) =
     Inl (Unhandled (JSONDecodeError ''Expecting value: line 1 column 1 (char 0)''))
   \<and> fst (search_movies (always (Response 404 not_json)) demo_client ''avengers'' init_state) =
     Inl (JSONDecodeError ''Expecting value: line 1 column 1 (char 0)'')
   \<and> fst (get_movie_details (always (Response 500 (Inr (JList [])))) demo_client 24428 init_state) =
     Inl AttributeError"
  by (simp add: eval_defs)

text \<open>A call that raised stored nothing: the same call is sent upstream again.\<close>

lemma raised_call_is_repeated:
  "fst (run (always (Response 502 not_json)) demo_client [Details 24428, Details 24428] init_state) =
     [Inl (JSONDecodeError ''Expecting value: line 1 column 1 (char 0)''),
      Inl (JSONDecodeError ''Expecting value: line 1 column 1 (char 0)'')]
   \<and> sent (snd (run (always (Response 502 not_json)) demo_client [Details 24428, Details 24428] init_state)) =
     [details_request demo_client 24428, details_request demo_client 24428]"
  by (simp add: call_def eval_defs)

section \<open>Memoization\<close>

lemma details_then_hit:
  assumes "fst (get_movie_details U self k s) = Inr v"
  shows "fst (get_movie_details U' self k (snd (get_movie_details U self k s))) = Inr v"
    and "sent (snd (get_movie_details U' self k (snd (get_movie_details U self k s)))) =
         sent (snd (get_movie_details U self k s))"
proof -
  obtain s1 where c1: "get_movie_details U self k s = (Inr v, s1)"
    using assms by (cases "get_movie_details U self k s") simp
  from details_stored[OF c1] have "map_of (details_cache s1) k = Some v" .
  from details_hit(1,2)[OF this, of U' self] c1
  show "fst (get_movie_details U' self k (snd (get_movie_details U self k s))) = Inr v"
    and "sent (snd (get_movie_details U' self k (snd (get_movie_details U self k s)))) =
         sent (snd (get_movie_details U self k s))"
    by simp_all
qed

lemma search_then_hit:
  assumes "fst (search_movies U self q s) = Inr v"
  shows "fst (search_movies U' self q (snd (search_movies U self q s))) = Inr v"
    and "sent (snd (search_movies U' self q (snd (search_movies U self q s)))) =
         sent (snd (search_movies U self q s))"
proof -
  obtain s1 where c1: "search_movies U self q s = (Inr v, s1)"
    using assms by (cases "search_movies U self q s") simp
  from search_stored[OF c1] have "map_of (search_cache s1) q = Some v" .
  from search_hit(1,2)[OF this, of U' self] c1
  show "fst (search_movies U' self q (snd (search_movies U self q s))) = Inr v"
    and "sent (snd (search_movies U' self q (snd (search_movies U self q s)))) =
         sent (snd (search_movies U self q s))"
    by simp_all
qed

text \<open>
  C1 as stated fails: a second call with the same key is not always served from
  the cache. After the query \<^verbatim>\<open>0\<close> come 32 other queries, which fill the search cache of
  capacity 32 and evict it; the second call with \<^verbatim>\<open>0\<close> is sent upstream again (34
  requests in all) and returns another value than the first.
\<close>

theorem memoization_after_eviction_counterexample:
  "hd (numbered_queries 33) = Search ''0''
   \<and> fst (run counting demo_client (numbered_queries 33 @ [Search ''0'']) init_state) ! 0 = Inr (JInt 0)
   \<and> fst (run counting demo_client (numbered_queries 33 @ [Search ''0'']) init_state) ! 33 = Inr (JInt 33)
   \<and> length (sent (snd (run counting demo_client (numbered_queries 33 @ [Search ''0'']) init_state))) = 34"
  by code_simp

section \<open>Bounded capacity and eviction\<close>

lemma recent_distinct: "distinct ks \<Longrightarrow> recent ks = rev ks"
  using recency_distinct[of ks "[]"] by (simp add: recent_def)

lemma not_key_map_of: "k \<notin> set (map fst c) \<Longrightarrow> map_of c k = None"
  by (simp add: map_of_eq_None_iff)

lemma run_recent:
  assumes "list_all (\<lambda>r. \<not> isl r) (fst (run U self cs init_state))"
  shows "map fst (details_cache (snd (run U self cs init_state))) = take 128 (recent (details_keys cs))"
    and "map fst (search_cache (snd (run U self cs init_state))) = take 32 (recent (search_keys cs))"
  using run_recency[of "[]" "[]" init_state U self cs] assms
  by (simp_all add: recent_def init_state_def)

lemma run_init_bounded:
  "length (details_cache (snd (run U self cs init_state))) \<le> 128
   \<and> length (search_cache (snd (run U self cs init_state))) \<le> 32"
  by (rule run_bounded) (simp add: init_state_def)

lemma first_of_distinct_evicted:
  assumes "distinct ks" "length ks = Suc n" "map fst c = take n (recent ks)"
  shows "map fst c = rev (tl ks)" and "map_of c (hd ks) = None"
proof -
  from assms show keys: "map fst c = rev (tl ks)"
    by (simp add: recent_distinct take_rev_all_but_first)
  from assms(1,2) have "hd ks \<notin> set (tl ks)" by (cases ks) auto
  with keys show "map_of c (hd ks) = None" by (simp add: not_key_map_of)
qed

text \<open>The upstream that counts never makes a call raise; the keys of the numbered calls.\<close>

lemma counting_call_returns: "\<not> isl (fst (call counting self c s))"
proof (cases c)
  case (Details k)
  have b: "fst (get_movie_details_body counting self k (sent s)) = Inr (JInt (int (length (sent s))))"
    by (simp add: get_movie_details_body_def counting_def raises_for_status_def)
  show ?thesis
  proof (cases "map_of (details_cache s) k")
    case None
    with Details b show ?thesis by (simp add: call_def details_miss_result)
  next
    case (Some v)
    with Details show ?thesis by (simp add: call_def details_hit(1))
  qed
next
  case (Search q)
  have b: "fst (search_movies_body counting self q (sent s)) = Inr (JInt (int (length (sent s))))"
    by (simp add: search_movies_body_def counting_def raises_for_status_def)
  show ?thesis
  proof (cases "map_of (search_cache s) q")
    case None
    with Search b show ?thesis by (simp add: call_def search_miss_result)
  next
    case (Some v)
    with Search show ?thesis by (simp add: call_def search_hit(1))
  qed
qed

lemma counting_run_returns: "list_all (\<lambda>r. \<not> isl r) (fst (run counting self cs s))"
  by (induction cs arbitrary: s) (simp_all add: run_Cons_fst counting_call_returns del: run.simps(2))

lemma keys_of_map:
  "details_keys (map Details ks) = ks" "search_keys (map Search qs) = qs"
  by (induction ks, simp_all) (induction qs, simp_all)

lemma keys_of_numbered:
  "details_keys (numbered_ids n) = map int [0..<n]"
  "search_keys (numbered_queries n) = map str_nat [0..<n]"
  using keys_of_map(1)[of "map int [0..<n]"] keys_of_map(2)[of "map str_nat [0..<n]"]
  by (simp_all add: numbered_ids_def numbered_queries_def comp_def)

text \<open>
  C2. After every sequence of cached calls from the start of the process, the detail
  cache holds at most 128 entries and the search cache at most 32. When every call of
  the sequence returned a value, the keys of each cache are, in the cache's own order,
  the first 128 (respectively 32) keys of the sequence in order of recency: the cache
  keeps exactly the most recently used keys, so what an insertion into a full cache
  drops is the least recently used one. In particular, after calls with capacity + 1
  distinct keys (129 detail ids, or 33 queries) the first key is absent, all the others
  are present, and a further call with the first key is a miss that is sent upstream.
\<close>

theorem lru_bounded_and_evicts:
  "length (details_cache (snd (run U self cs init_state))) \<le> 128
   \<and> length (search_cache (snd (run U self cs init_state))) \<le> 32
   \<and> (list_all (\<lambda>r. \<not> isl r) (fst (run U self cs init_state)) \<longrightarrow>
        map fst (details_cache (snd (run U self cs init_state))) = take 128 (recent (details_keys cs))
      \<and> map fst (search_cache (snd (run U self cs init_state))) = take 32 (recent (search_keys cs)))
   \<and> (list_all (\<lambda>r. \<not> isl r) (fst (run U self cs init_state))
        \<and> distinct (details_keys cs) \<and> length (details_keys cs) = 129 \<longrightarrow>
        map fst (details_cache (snd (run U self cs init_state))) = rev (tl (details_keys cs))
      \<and> map_of (details_cache (snd (run U self cs init_state))) (hd (details_keys cs)) = None
      \<and> sent (snd (get_movie_details U' self (hd (details_keys cs)) (snd (run U self cs init_state)))) =
          sent (snd (run U self cs init_state)) @ [details_request self (hd (details_keys cs))])
   \<and> (list_all (\<lambda>r. \<not> isl r) (fst (run U self cs init_state))
        \<and> distinct (search_keys cs) \<and> length (search_keys cs) = 33 \<longrightarrow>
        map fst (search_cache (snd (run U self cs init_state))) = rev (tl (search_keys cs))
      \<and> map_of (search_cache (snd (run U self cs init_state))) (hd (search_keys cs)) = None
      \<and> sent (snd (search_movies U' self (hd (search_keys cs)) (snd (run U self cs init_state)))) =
          sent (snd (run U self cs init_state)) @ [search_request self (hd (search_keys cs))])"
proof -
  let ?s = "snd (run U self cs init_state)"
  let ?ok = "list_all (\<lambda>r. \<not> isl r) (fst (run U self cs init_state))"
  have d: "map fst (details_cache ?s) = rev (tl (details_keys cs))
      \<and> map_of (details_cache ?s) (hd (details_keys cs)) = None
      \<and> sent (snd (get_movie_details U' self (hd (details_keys cs)) ?s)) =
          sent ?s @ [details_request self (hd (details_keys cs))]"
    if ok: ?ok and dist: "distinct (details_keys cs)" and len: "length (details_keys cs) = 129"
  proof -
    from len have len': "length (details_keys cs) = Suc 128" by simp
    note ev = first_of_distinct_evicted[OF dist len' run_recent(1)[OF ok]]
    from ev details_miss_sent[OF ev(2)] show ?thesis by simp
  qed
  have q: "map fst (search_cache ?s) = rev (tl (search_keys cs))
      \<and> map_of (search_cache ?s) (hd (search_keys cs)) = None
      \<and> sent (snd (search_movies U' self (hd (search_keys cs)) ?s)) =
          sent ?s @ [search_request self (hd (search_keys cs))]"
    if ok: ?ok and dist: "distinct (search_keys cs)" and len: "length (search_keys cs) = 33"
  proof -
    from len have len': "length (search_keys cs) = Suc 32" by simp
    note ev = first_of_distinct_evicted[OF dist len' run_recent(2)[OF ok]]
    from ev search_miss_sent[OF ev(2)] show ?thesis by simp
  qed
  from run_init_bounded[of U self cs] run_recent[of U self cs] d q show ?thesis by blast
qed

theorem lru_bounded_and_evicts_witness:
  "length (details_cache (snd (run counting demo_client (numbered_ids 129) init_state))) \<le> 128
   \<and> map fst (details_cache (snd (run counting demo_client (numbered_ids 129) init_state))) =
       rev (map int [1..<129])
   \<and> map_of (details_cache (snd (run counting demo_client (numbered_ids 129) init_state))) 0 = None
   \<and> sent (snd (get_movie_details counting demo_client 0
          (snd (run counting demo_client (numbered_ids 129) init_state)))) =
       sent (snd (run counting demo_client (numbered_ids 129) init_state)) @ [details_request demo_client 0]
   \<and> length (search_cache (snd (run counting demo_client (numbered_queries 33) init_state))) \<le> 32
   \<and> map fst (search_cache (snd (run counting demo_client (numbered_queries 33) init_state))) =
       rev (map str_nat [1..<33])
   \<and> map_of (search_cache (snd (run counting demo_client (numbered_queries 33) init_state))) ''0'' = None
   \<and> sent (snd (search_movies counting demo_client ''0''
          (snd (run counting demo_client (numbered_queries 33) init_state)))) =
       sent (snd (run counting demo_client (numbered_queries 33) init_state)) @ [search_request demo_client ''0'']"
proof -
  have dk: "distinct (details_keys (numbered_ids 129))" "length (details_keys (numbered_ids 129)) = 129"
    by (simp_all add: keys_of_numbered distinct_map)
  have dk': "hd (details_keys (numbered_ids 129)) = 0" "tl (details_keys (numbered_ids 129)) = map int [1..<129]"
    by (simp_all add: keys_of_numbered upt_conv_Cons[of 0 129] del: upt_Suc)
  have inj: "inj_on str_nat (set [0..<33])" by code_simp
  then have sk: "distinct (search_keys (numbered_queries 33))" "length (search_keys (numbered_queries 33)) = 33"
    by (simp_all add: keys_of_numbered distinct_map)
  have sk': "hd (search_keys (numbered_queries 33)) = ''0''" "tl (search_keys (numbered_queries 33)) = map str_nat [1..<33]"
    by (simp_all add: keys_of_numbered upt_conv_Cons[of 0 33] str_nat.simps digit_char_def del: upt_Suc)
  note okd = counting_run_returns[of demo_client "numbered_ids 129" init_state]
  note oks = counting_run_returns[of demo_client "numbered_queries 33" init_state]
  from lru_bounded_and_evicts[where U = counting and U' = counting and self = demo_client
      and cs = "numbered_ids 129", unfolded dk'] okd dk
  have a: "length (details_cache (snd (run counting demo_client (numbered_ids 129) init_state))) \<le> 128
   \<and> map fst (details_cache (snd (run counting demo_client (numbered_ids 129) init_state))) =
       rev (map int [1..<129])
   \<and> map_of (details_cache (snd (run counting demo_client (numbered_ids 129) init_state))) 0 = None
   \<and> sent (snd (get_movie_details counting demo_client 0
          (snd (run counting demo_client (numbered_ids 129) init_state)))) =
       sent (snd (run counting demo_client (numbered_ids 129) init_state)) @ [details_request demo_client 0]"
    by blast
  from lru_bounded_and_evicts[where U = counting and U' = counting and self = demo_client
      and cs = "numbered_queries 33", unfolded sk'] oks sk
  have b: "length (search_cache (snd (run counting demo_client (numbered_queries 33) init_state))) \<le> 32
   \<and> map fst (search_cache (snd (run counting demo_client (numbered_queries 33) init_state))) =
       rev (map str_nat [1..<33])
   \<and> map_of (search_cache (snd (run counting demo_client (numbered_queries 33) init_state))) ''0'' = None
   \<and> sent (snd (search_movies counting demo_client ''0''
          (snd (run counting demo_client (numbered_queries 33) init_state)))) =
       sent (snd (run counting demo_client (numbered_queries 33) init_state)) @ [search_request demo_client ''0'']"
    by blast
  from a b show ?thesis by blast
qed

section \<open>The search handler on a payload\<close>

lemma falsy_not_error_dict: "\<not> truthy v \<Longrightarrow> \<not> is_error_dict v"
  by (cases v) (auto simp: dict_has_def)

lemma respond_falsy:
  "\<not> truthy v \<Longrightarrow>
   search_movie_respond P d q v = Inr \<lparr>s_query = q, s_total_results = 0, s_results = [], s_duration_ms = d\<rparr>"
  by (simp add: search_movie_respond_def falsy_not_error_dict)

lemma respond_no_results:
  "\<not> dict_has dd ''error'' \<Longrightarrow> \<not> dict_has dd ''results'' \<Longrightarrow>
   search_movie_respond P d q (JObj dd) =
     Inr \<lparr>s_query = q, s_total_results = 0, s_results = [], s_duration_ms = d\<rparr>"
  by (simp add: search_movie_respond_def)

lemma dict_has_nonempty: "dict_has dd k \<Longrightarrow> dd \<noteq> []"
  by (auto simp: dict_has_def)

lemma respond_with_results:
  "\<not> dict_has dd ''error'' \<Longrightarrow> dict_has dd ''results'' \<Longrightarrow>
   search_movie_respond P d q (JObj dd) =
     (case map_search P q (JObj dd) d of
        Inl e \<Rightarrow> Inl (HTTPException 500
                   (Text ''Error processing external search results. Internal service error.''))
      | Inr r \<Rightarrow> Inr r)"
  by (simp add: search_movie_respond_def dict_has_nonempty)

lemma respond_error_dict:
  "dict_has dd ''error'' \<Longrightarrow>
   search_movie_respond P d q (JObj dd) =
     Inl (HTTPException 500 (External_API_Error (dict_get dd ''message'' (JStr ''Check client logs.''))))"
  "dict_has dd ''error'' \<Longrightarrow>
   get_movie_respond P d k (JObj dd) =
     Inl (HTTPException 500 (External_API_Error (dict_get dd ''message'' (JStr ''Check client logs.''))))"
  by (simp_all add: search_movie_respond_def get_movie_respond_def)

lemma get_respond_no_error:
  "\<not> dict_has dd ''error'' \<Longrightarrow>
   get_movie_respond P d k (JObj dd) =
     (case map_movie_details P (JObj dd) d of
        Inl e \<Rightarrow> Inl (HTTPException 500
                   (Text ''Error processing external data structure. Internal service error.''))
      | Inr r \<Rightarrow> Inr r)"
  by (simp add: get_movie_respond_def)

lemma map_search_empty_list:
  assumes "map_of dd ''results'' = Some (JList [])"
  shows "map_search P q (JObj dd) d =
     SearchResponse_new P q (dict_get dd ''total_results'' (JInt 0)) [] d"
  using assms by (simp add: map_search_def try_bind_def dict_get_def split: option.splits)

lemma map_search_Inr:
  assumes "map_search P q (JObj dd) d = Inr R"
  shows "validate_int P (dict_get dd ''total_results'' (JInt (int (length (s_results R))))) =
           Some (s_total_results R)"
  using assms
  by (auto simp: map_search_def try_bind_def SearchResponse_new_def split: sum.splits option.splits)

text \<open>
  C8, as the code has it. When the client result of a search is falsy, or is a
  dictionary without the key \<^verbatim>\<open>error\<close> that lacks a \<^verbatim>\<open>results\<close> field, the handler
  returns the successful response with \<^verbatim>\<open>total_results = 0\<close> and an empty list. When it
  is a dictionary without \<^verbatim>\<open>error\<close> whose \<^verbatim>\<open>results\<close> is the empty list, the handler
  returns a successful response with an empty list whose \<^verbatim>\<open>total_results\<close> is 0 when
  the payload has no \<^verbatim>\<open>total_results\<close> field, and the payload's integer when it has one.
\<close>

theorem empty_search_success:
  assumes "fst (search_movies U self q s) = Inr v"
  shows "(\<not> truthy v \<longrightarrow>
            fst (search_movie P U (Some self) d q s) =
              Inr \<lparr>s_query = q, s_total_results = 0, s_results = [], s_duration_ms = d\<rparr>)
       \<and> (v = JObj dd \<and> \<not> dict_has dd ''error'' \<and> \<not> dict_has dd ''results'' \<longrightarrow>
            fst (search_movie P U (Some self) d q s) =
              Inr \<lparr>s_query = q, s_total_results = 0, s_results = [], s_duration_ms = d\<rparr>)
       \<and> (v = JObj dd \<and> \<not> dict_has dd ''error'' \<and> map_of dd ''results'' = Some (JList [])
            \<and> map_of dd ''total_results'' = None \<longrightarrow>
            fst (search_movie P U (Some self) d q s) =
              Inr \<lparr>s_query = q, s_total_results = 0, s_results = [], s_duration_ms = d\<rparr>)
       \<and> (v = JObj dd \<and> \<not> dict_has dd ''error'' \<and> map_of dd ''results'' = Some (JList [])
            \<and> map_of dd ''total_results'' = Some (JInt n) \<longrightarrow>
            fst (search_movie P U (Some self) d q s) =
              Inr \<lparr>s_query = q, s_total_results = n, s_results = [], s_duration_ms = d\<rparr>)"
proof -
  note r = search_movie_value[OF assms, of P d]
  have has: "dict_has dd ''results''" if "map_of dd ''results'' = Some (JList [])"
    using that by (simp add: dict_has_def)
  show ?thesis
    by (auto simp: r respond_falsy respond_no_results respond_with_results has
        map_search_empty_list dict_get_def SearchResponse_new_def validate_int_def)
qed

theorem empty_search_success_witness:
  "fst (search_movie strict (always (ok (JObj []))) (Some demo_client) 0 ''zzzz'' init_state) =
     Inr \<lparr>s_query = ''zzzz'', s_total_results = 0, s_results = [], s_duration_ms = 0\<rparr>
   \<and> fst (search_movie strict (always (ok (JObj [(''page'', JInt 1)]))) (Some demo_client) 0 ''zzzz'' init_state) =
     Inr \<lparr>s_query = ''zzzz'', s_total_results = 0, s_results = [], s_duration_ms = 0\<rparr>
   \<and> fst (search_movie strict (always (ok (JObj [(''page'', JInt 1), (''results'', JList [])])))
          (Some demo_client) 0 ''zzzz'' init_state) =
     Inr \<lparr>s_query = ''zzzz'', s_total_results = 0, s_results = [], s_duration_ms = 0\<rparr>
   \<and> fst (search_movie strict
          (always (ok (JObj [(''page'', JInt 1), (''results'', JList []), (''total_results'', JInt 0)])))
          (Some demo_client) 0 ''zzzz'' init_state) =
     Inr \<lparr>s_query = ''zzzz'', s_total_results = 0, s_results = [], s_duration_ms = 0\<rparr>"
proof -
  have c: "fst (search_movies (always (ok j)) demo_client ''zzzz'' init_state) = Inr j" for j
    by (simp add: ok_def eval_defs)
  from empty_search_success[OF c, where dd = "[]" and P = strict and d = 0]
  have 1: "fst (search_movie strict (always (ok (JObj []))) (Some demo_client) 0 ''zzzz'' init_state) =
     Inr \<lparr>s_query = ''zzzz'', s_total_results = 0, s_results = [], s_duration_ms = 0\<rparr>"
    by simp
  from empty_search_success[OF c, where dd = "[(''page'', JInt 1)]" and P = strict and d = 0]
  have 2: "fst (search_movie strict (always (ok (JObj [(''page'', JInt 1)]))) (Some demo_client) 0 ''zzzz'' init_state) =
     Inr \<lparr>s_query = ''zzzz'', s_total_results = 0, s_results = [], s_duration_ms = 0\<rparr>"
    by (simp add: dict_has_def)
  from empty_search_success[OF c, where dd = "[(''page'', JInt 1), (''results'', JList [])]" and P = strict and d = 0]
  have 3: "fst (search_movie strict (always (ok (JObj [(''page'', JInt 1), (''results'', JList [])])))
          (Some demo_client) 0 ''zzzz'' init_state) =
     Inr \<lparr>s_query = ''zzzz'', s_total_results = 0, s_results = [], s_duration_ms = 0\<rparr>"
    by (simp add: dict_has_def)
  from empty_search_success[OF c, where dd = "[(''page'', JInt 1), (''results'', JList []), (''total_results'', JInt 0)]"
      and P = strict and d = 0 and n = 0]
  have 4: "fst (search_movie strict
          (always (ok (JObj [(''page'', JInt 1), (''results'', JList []), (''total_results'', JInt 0)])))
          (Some demo_client) 0 ''zzzz'' init_state) =
     Inr \<lparr>s_query = ''zzzz'', s_total_results = 0, s_results = [], s_duration_ms = 0\<rparr>"
    by (simp add: dict_has_def)
  from 1 2 3 4 show ?thesis by blast
qed

text \<open>
  C8 as stated fails: a successful payload with an empty result list and
  \<^verbatim>\<open>total_results = 5\<close> is answered with \<^verbatim>\<open>total_results = 5\<close>, not 0.
\<close>

theorem empty_results_total_counterexample:
  "fst (search_movies (always (ok (JObj [(''results'', JList []), (''total_results'', JInt 5)])))
        demo_client ''zzzz'' init_state) =
     Inr (JObj [(''results'', JList []), (''total_results'', JInt 5)])
   \<and> fst (search_movie strict (always (ok (JObj [(''results'', JList []), (''total_results'', JInt 5)])))
        (Some demo_client) 0 ''zzzz'' init_state) =
     Inr \<lparr>s_query = ''zzzz'', s_total_results = 5, s_results = [], s_duration_ms = 0\<rparr>"
  by (simp add: ok_def eval_defs)


section \<open>Classification by the error key\<close>

text \<open>
  C9, as the code has it. A dictionary returned by the client that has the key
  \<^verbatim>\<open>error\<close>, wherever it comes from, makes both handlers raise HTTP 500 with the
  external-API-error detail built from its \<^verbatim>\<open>message\<close> (or the default text). A
  dictionary is surfaced as data only if it lacks the key. A dictionary that lacks
  the key is never reported as an external API error: the handler either returns a
  response or raises HTTP 500 with its own processing-error detail, when mapping the
  payload to the response model fails.
\<close>

theorem error_key_classification:
  "(fst (get_movie_details U self movie_id s) = Inr (JObj dd) \<longrightarrow>
      (dict_has dd ''error'' \<longrightarrow>
         fst (get_movie P U (Some self) d movie_id s) =
           Inl (HTTPException 500 (External_API_Error (dict_get dd ''message'' (JStr ''Check client logs.'')))))
    \<and> (\<forall>r. fst (get_movie P U (Some self) d movie_id s) = Inr r \<longrightarrow> \<not> dict_has dd ''error'')
    \<and> (\<not> dict_has dd ''error'' \<longrightarrow>
         (\<exists>r. fst (get_movie P U (Some self) d movie_id s) = Inr r)
         \<or> fst (get_movie P U (Some self) d movie_id s) =
             Inl (HTTPException 500
               (Text ''Error processing external data structure. Internal service error.''))))
   \<and> (fst (search_movies U self q s) = Inr (JObj dd') \<longrightarrow>
      (dict_has dd' ''error'' \<longrightarrow>
         fst (search_movie P U (Some self) d q s) =
           Inl (HTTPException 500 (External_API_Error (dict_get dd' ''message'' (JStr ''Check client logs.'')))))
    \<and> (\<forall>r. fst (search_movie P U (Some self) d q s) = Inr r \<longrightarrow> \<not> dict_has dd' ''error'')
    \<and> (\<not> dict_has dd' ''error'' \<longrightarrow>
         (\<exists>r. fst (search_movie P U (Some self) d q s) = Inr r)
         \<or> fst (search_movie P U (Some self) d q s) =
             Inl (HTTPException 500
               (Text ''Error processing external search results. Internal service error.''))))"
proof -
  have g: ?thesis if False using that by simp
  have a: "(dict_has dd ''error'' \<longrightarrow>
         fst (get_movie P U (Some self) d movie_id s) =
           Inl (HTTPException 500 (External_API_Error (dict_get dd ''message'' (JStr ''Check client logs.'')))))
    \<and> (\<forall>r. fst (get_movie P U (Some self) d movie_id s) = Inr r \<longrightarrow> \<not> dict_has dd ''error'')
    \<and> (\<not> dict_has dd ''error'' \<longrightarrow>
         (\<exists>r. fst (get_movie P U (Some self) d movie_id s) = Inr r)
         \<or> fst (get_movie P U (Some self) d movie_id s) =
             Inl (HTTPException 500
               (Text ''Error processing external data structure. Internal service error.'')))"
    if c: "fst (get_movie_details U self movie_id s) = Inr (JObj dd)"
    using get_movie_value[OF c, of P d]
    by (cases "dict_has dd ''error''")
       (auto simp: respond_error_dict get_respond_no_error split: sum.splits)
  have b: "(dict_has dd' ''error'' \<longrightarrow>
         fst (search_movie P U (Some self) d q s) =
           Inl (HTTPException 500 (External_API_Error (dict_get dd' ''message'' (JStr ''Check client logs.'')))))
    \<and> (\<forall>r. fst (search_movie P U (Some self) d q s) = Inr r \<longrightarrow> \<not> dict_has dd' ''error'')
    \<and> (\<not> dict_has dd' ''error'' \<longrightarrow>
         (\<exists>r. fst (search_movie P U (Some self) d q s) = Inr r)
         \<or> fst (search_movie P U (Some self) d q s) =
             Inl (HTTPException 500
               (Text ''Error processing external search results. Internal service error.'')))"
    if c: "fst (search_movies U self q s) = Inr (JObj dd')"
  proof (cases "dict_has dd' ''error''")
    case True
    with search_movie_value[OF c, of P d] show ?thesis by (simp add: respond_error_dict)
  next
    case False
    show ?thesis
    proof (cases "dict_has dd' ''results''")
      case True
      with False search_movie_value[OF c, of P d] show ?thesis
        by (auto simp: respond_with_results split: sum.splits)
    next
      case nr: False
      with False search_movie_value[OF c, of P d] show ?thesis
        by (simp add: respond_no_results)
    qed
  qed
  from a b show ?thesis by blast
qed

theorem error_key_classification_witness:
  "fst (get_movie strict
         (always (ok (JObj [(''id'', JInt 24428), (''title'', JStr ''The Avengers''), (''error'', JBool False)])))
         (Some demo_client) 0 24428 init_state) =
     Inl (HTTPException 500 (External_API_Error (JStr ''Check client logs.'')))
   \<and> fst (search_movie strict
         (always (Response 401 (Inr (JObj [(''status_code'', JInt 7),
            (''status_message'', JStr ''Invalid API key: You must be granted a valid key.'')]))))
         (Some demo_client) 0 ''avengers'' init_state) =
     Inl (HTTPException 500
       (External_API_Error (JStr ''Invalid API key: You must be granted a valid key.'')))"
proof -
  have c1: "fst (get_movie_details
         (always (ok (JObj [(''id'', JInt 24428), (''title'', JStr ''The Avengers''), (''error'', JBool False)])))
         demo_client 24428 init_state) =
      Inr (JObj [(''id'', JInt 24428), (''title'', JStr ''The Avengers''), (''error'', JBool False)])"
    by (simp add: ok_def eval_defs)
  have c2: "fst (search_movies
         (always (Response 401 (Inr (JObj [(''status_code'', JInt 7),
            (''status_message'', JStr ''Invalid API key: You must be granted a valid key.'')]))))
         demo_client ''avengers'' init_state) =
      Inr (JObj [(''error'', JStr ''API Error: 401''),
                 (''message'', JStr ''Invalid API key: You must be granted a valid key.'')])"
    by (simp add: eval_defs)
  from error_key_classification[where U = "always (ok (JObj [(''id'', JInt 24428), (''title'', JStr ''The Avengers''), (''error'', JBool False)]))"
      and self = demo_client and movie_id = 24428 and s = init_state and P = strict and d = 0
      and dd = "[(''id'', JInt 24428), (''title'', JStr ''The Avengers''), (''error'', JBool False)]"] c1
  have 1: "fst (get_movie strict
         (always (ok (JObj [(''id'', JInt 24428), (''title'', JStr ''The Avengers''), (''error'', JBool False)])))
         (Some demo_client) 0 24428 init_state) =
     Inl (HTTPException 500 (External_API_Error (JStr ''Check client logs.'')))"
    by (simp add: dict_has_def dict_get_def)
  from error_key_classification[where U = "always (Response 401 (Inr (JObj [(''status_code'', JInt 7),
            (''status_message'', JStr ''Invalid API key: You must be granted a valid key.'')])))"
      and self = demo_client and q = "''avengers''" and s = init_state and P = strict and d = 0
      and dd' = "[(''error'', JStr ''API Error: 401''),
                 (''message'', JStr ''Invalid API key: You must be granted a valid key.'')]"] c2
  have 2: "fst (search_movie strict
         (always (Response 401 (Inr (JObj [(''status_code'', JInt 7),
            (''status_message'', JStr ''Invalid API key: You must be granted a valid key.'')]))))
         (Some demo_client) 0 ''avengers'' init_state) =
     Inl (HTTPException 500
       (External_API_Error (JStr ''Invalid API key: You must be granted a valid key.'')))"
    by (simp add: dict_has_def dict_get_def)
  from 1 2 show ?thesis by blast
qed

text \<open>
  C9 as stated fails in one direction: a dictionary without the key \<^verbatim>\<open>error\<close> is not
  always surfaced as data. The payload \<^verbatim>\<open>{"id": 24428}\<close> has no title; the model
  refuses it and the handler raises HTTP 500. No conversion of the validation library
  is consulted here, since a missing field reads as \<^verbatim>\<open>None\<close>, as the lemma after the
  example shows for every such library.
\<close>

theorem no_error_key_not_surfaced_counterexample:
  "fst (get_movie_details (always (ok (JObj [(''id'', JInt 24428)]))) demo_client 24428 init_state) =
     Inr (JObj [(''id'', JInt 24428)])
   \<and> \<not> dict_has [(''id'', JInt 24428)] ''error''
   \<and> fst (get_movie strict (always (ok (JObj [(''id'', JInt 24428)]))) (Some demo_client) 0 24428 init_state) =
     Inl (HTTPException 500 (Text ''Error processing external data structure. Internal service error.''))"
  by (simp add: ok_def eval_defs)

lemma missing_title_never_maps:
  "map_of dd ''title'' = None \<Longrightarrow> \<not> dict_has dd ''error'' \<Longrightarrow>
   get_movie_respond P d k (JObj dd) =
     Inl (HTTPException 500 (Text ''Error processing external data structure. Internal service error.''))"
  by (simp add: get_respond_no_error map_movie_details_def try_bind_def dict_get_def
      MovieDetailsResponse_new_def validate_str_def split: option.splits)


section \<open>The total of a search response\<close>

text \<open>
  C10, as the code has it. When the search handler returns a response for a client
  result that is a dictionary with a \<^verbatim>\<open>results\<close> field, the response's
  \<^verbatim>\<open>total_results\<close> is the payload's \<^verbatim>\<open>total_results\<close> field as the model validates
  it (the integer itself when the field is an integer) when the field is present, and
  the length of the mapped list when it is absent. For every other client result that
  gets a response (a falsy value, or a payload without a \<^verbatim>\<open>results\<close> field) the
  total is 0 and the list is empty, whatever \<^verbatim>\<open>total_results\<close> the payload carries.
\<close>

theorem total_results_fallback:
  assumes "fst (search_movies U self q s) = Inr v"
    and "fst (search_movie P U (Some self) d q s) = Inr R"
  shows "(v = JObj dd \<and> dict_has dd ''results'' \<and> map_of dd ''total_results'' = Some t \<longrightarrow>
            validate_int P t = Some (s_total_results R))
       \<and> (v = JObj dd \<and> dict_has dd ''results'' \<and> map_of dd ''total_results'' = Some (JInt n) \<longrightarrow>
            s_total_results R = n)
       \<and> (v = JObj dd \<and> dict_has dd ''results'' \<and> map_of dd ''total_results'' = None \<longrightarrow>
            s_total_results R = int (length (s_results R)))
       \<and> ((\<forall>dd. v = JObj dd \<longrightarrow> \<not> dict_has dd ''results'') \<longrightarrow>
            s_total_results R = 0 \<and> s_results R = [])"
proof -
  from search_movie_value[OF assms(1), of P d] assms(2)
  have r: "search_movie_respond P d q v = Inr R" by simp
  have with_results: "validate_int P (dict_get dd ''total_results'' (JInt (int (length (s_results R))))) =
           Some (s_total_results R)"
    if "v = JObj dd" "dict_has dd ''results''"
  proof -
    from r that have ne: "\<not> dict_has dd ''error''"
      by (auto simp: respond_error_dict)
    from r that respond_with_results[OF ne that(2), of P d q]
    have "map_search P q (JObj dd) d = Inr R" by (simp split: sum.splits)
    then show ?thesis by (rule map_search_Inr)
  qed
  have without: "s_total_results R = 0 \<and> s_results R = []"
    if nd: "\<forall>dd. v = JObj dd \<longrightarrow> \<not> dict_has dd ''results''"
  proof (cases "truthy v")
    case False
    with r show ?thesis by (auto simp: respond_falsy)
  next
    case True
    show ?thesis
    proof (cases v)
      case (JObj dd)
      with nd have nr: "\<not> dict_has dd ''results''" by simp
      from r JObj have "\<not> dict_has dd ''error''" by (auto simp: respond_error_dict)
      from respond_no_results[OF this nr, of P d q] r JObj show ?thesis by auto
    next
      case (JList xs)
      with r True show ?thesis
        by (auto simp: search_movie_respond_def map_search_def try_bind_def split: if_splits sum.splits bool.splits)
    next
      case (JStr x)
      with r True show ?thesis
        by (auto simp: search_movie_respond_def map_search_def try_bind_def split: if_splits sum.splits bool.splits)
    qed (use r True in \<open>auto simp: search_movie_respond_def\<close>)
  qed
  have present: "validate_int P t = Some (s_total_results R)"
    if "v = JObj dd" "dict_has dd ''results''" "map_of dd ''total_results'' = Some t" for t
    using with_results[OF that(1,2)] that(3) by (simp add: dict_get_def)
  have present_int: "s_total_results R = n"
    if "v = JObj dd" "dict_has dd ''results''" "map_of dd ''total_results'' = Some (JInt n)"
    using present[OF that] by (simp add: validate_int_def)
  have absent: "s_total_results R = int (length (s_results R))"
    if "v = JObj dd" "dict_has dd ''results''" "map_of dd ''total_results'' = None"
    using with_results[OF that(1,2)] that(3) by (simp add: dict_get_def validate_int_def)
  have A: "v = JObj dd \<and> dict_has dd ''results'' \<and> map_of dd ''total_results'' = Some t \<longrightarrow>
            validate_int P t = Some (s_total_results R)"
    using present[of t] by fast
  have B: "v = JObj dd \<and> dict_has dd ''results'' \<and> map_of dd ''total_results'' = Some (JInt n) \<longrightarrow>
            s_total_results R = n"
    using present_int by fast
  have C: "v = JObj dd \<and> dict_has dd ''results'' \<and> map_of dd ''total_results'' = None \<longrightarrow>
            s_total_results R = int (length (s_results R))"
    using absent by fast
  have D: "(\<forall>dd. v = JObj dd \<longrightarrow> \<not> dict_has dd ''results'') \<longrightarrow>
            s_total_results R = 0 \<and> s_results R = []"
    using without by fast
  show ?thesis by (rule conjI[OF A conjI[OF B conjI[OF C D]]])
qed

text \<open>The total may differ from the number of results returned: 20000 against one item.\<close>

theorem total_results_fallback_witness:
  "fst (search_movie strict
         (always (ok (JObj [(''page'', JInt 1), (''results'', JList [avengers_item]), (''total_results'', JInt 20000)])))
         (Some demo_client) 0 ''avengers'' init_state) =
     Inr \<lparr>s_query = ''avengers'', s_total_results = 20000,
          s_results = [\<lparr>r_movie_id = 24428, r_title = ''The Avengers'', r_release_date = Some ''2012-04-25''\<rparr>],
          s_duration_ms = 0\<rparr>
   \<and> fst (search_movie strict
         (always (ok (JObj [(''page'', JInt 1), (''results'', JList [avengers_item])])))
         (Some demo_client) 0 ''avengers'' init_state) =
     Inr \<lparr>s_query = ''avengers'', s_total_results = 1,
          s_results = [\<lparr>r_movie_id = 24428, r_title = ''The Avengers'', r_release_date = Some ''2012-04-25''\<rparr>],
          s_duration_ms = 0\<rparr>"
proof -
  let ?R = "\<lambda>n. \<lparr>s_query = ''avengers'', s_total_results = n,
          s_results = [\<lparr>r_movie_id = 24428, r_title = ''The Avengers'', r_release_date = Some ''2012-04-25''\<rparr>],
          s_duration_ms = 0\<rparr>"
  have c: "fst (search_movies (always (ok j)) demo_client ''avengers'' init_state) = Inr j" for j
    by (simp add: ok_def eval_defs)
  have r1: "\<exists>n. fst (search_movie strict
         (always (ok (JObj [(''page'', JInt 1), (''results'', JList [avengers_item]), (''total_results'', JInt 20000)])))
         (Some demo_client) 0 ''avengers'' init_state) = Inr (?R n)"
    by (simp add: ok_def avengers_item_def eval_defs)
  then obtain n1 where r1: "fst (search_movie strict
         (always (ok (JObj [(''page'', JInt 1), (''results'', JList [avengers_item]), (''total_results'', JInt 20000)])))
         (Some demo_client) 0 ''avengers'' init_state) = Inr (?R n1)" ..
  from total_results_fallback[OF c r1,
      where dd = "[(''page'', JInt 1), (''results'', JList [avengers_item]), (''total_results'', JInt 20000)]"
        and n = 20000]
  have "n1 = 20000" by (simp add: dict_has_def)
  with r1 have 1: "fst (search_movie strict
         (always (ok (JObj [(''page'', JInt 1), (''results'', JList [avengers_item]), (''total_results'', JInt 20000)])))
         (Some demo_client) 0 ''avengers'' init_state) = Inr (?R 20000)" by simp
  have r2: "\<exists>n. fst (search_movie strict
         (always (ok (JObj [(''page'', JInt 1), (''results'', JList [avengers_item])])))
         (Some demo_client) 0 ''avengers'' init_state) = Inr (?R n)"
    by (simp add: ok_def avengers_item_def eval_defs)
  then obtain n2 where r2: "fst (search_movie strict
         (always (ok (JObj [(''page'', JInt 1), (''results'', JList [avengers_item])])))
         (Some demo_client) 0 ''avengers'' init_state) = Inr (?R n2)" ..
  from total_results_fallback[OF c r2,
      where dd = "[(''page'', JInt 1), (''results'', JList [avengers_item])]"]
  have "n2 = 1" by (simp add: dict_has_def)
  with r2 have 2: "fst (search_movie strict
         (always (ok (JObj [(''page'', JInt 1), (''results'', JList [avengers_item])])))
         (Some demo_client) 0 ''avengers'' init_state) = Inr (?R 1)" by simp
  from 1 2 show ?thesis by blast
qed

text \<open>
  C10 as stated fails: a successful payload with \<^verbatim>\<open>total_results = 7\<close> and no
  \<^verbatim>\<open>results\<close> field is answered with \<^verbatim>\<open>total_results = 0\<close>.
\<close>

theorem total_results_without_results_counterexample:
  "fst (search_movies (always (ok (JObj [(''page'', JInt 1), (''total_results'', JInt 7)])))
        demo_client ''avengers'' init_state) =
     Inr (JObj [(''page'', JInt 1), (''total_results'', JInt 7)])
   \<and> fst (search_movie strict (always (ok (JObj [(''page'', JInt 1), (''total_results'', JInt 7)])))
        (Some demo_client) 0 ''avengers'' init_state) =
     Inr \<lparr>s_query = ''avengers'', s_total_results = 0, s_results = [], s_duration_ms = 0\<rparr>"
  by (simp add: ok_def eval_defs)

section \<open>Entries of other keys\<close>

text \<open>
  A call never changes the value stored under another key: the entry of a key is either
  left as it is or dropped, and a key that is absent stays absent until a call with
  that key itself. So an entry that remains cached along a sequence of calls keeps its
  value.
\<close>

lemma map_of_filter_other:
  "K \<noteq> k \<Longrightarrow> map_of (filter (\<lambda>kv. fst kv \<noteq> k) cache) K = map_of cache K"
  by (induction cache) auto

lemma map_of_butlast_Some:
  "map_of (butlast xs) K = Some v \<Longrightarrow> map_of xs K = Some v"
  by (induction xs) (auto split: if_splits)

lemma map_of_butlast_None:
  "map_of xs K = None \<Longrightarrow> map_of (butlast xs) K = None"
  by (induction xs) (auto split: if_splits)

lemma lru_value_stable:
  assumes call: "lru_cache_call n f k cache w = (r, cache', w')"
    and before: "map_of cache K = Some v" and after: "map_of cache' K = Some v'"
  shows "v' = v"
proof (cases rule: lru_cases[of cache k n f w])
  case (hit u)
  show ?thesis
  proof (cases "K = k")
    case True
    with hit call before after show ?thesis by simp
  next
    case False
    with hit call before after show ?thesis by (simp add: map_of_filter_other)
  qed
next
  case (miss u w'')
  with before have ne: "K \<noteq> k" by auto
  from miss call have "cache' = (k, u) # butlast cache \<or> cache' = (k, u) # cache"
    by (auto split: if_splits)
  then show ?thesis
  proof
    assume "cache' = (k, u) # butlast cache"
    with ne after have "map_of (butlast cache) K = Some v'" by simp
    from map_of_butlast_Some[OF this] before show ?thesis by simp
  next
    assume "cache' = (k, u) # cache"
    with ne after before show ?thesis by simp
  qed
next
  case (exn e w'')
  with call before after show ?thesis by simp
qed

lemma lru_absent_stays:
  assumes call: "lru_cache_call n f k cache w = (r, cache', w')"
    and ne: "K \<noteq> k" and before: "map_of cache K = None"
  shows "map_of cache' K = None"
proof (cases rule: lru_cases[of cache k n f w])
  case (hit u)
  with call ne before show ?thesis by (auto simp: map_of_filter_other)
next
  case (miss u w'')
  from miss call have "cache' = (k, u) # butlast cache \<or> cache' = (k, u) # cache"
    by (auto split: if_splits)
  with ne before show ?thesis by (auto simp: map_of_butlast_None)
next
  case (exn e w'')
  with call before show ?thesis by simp
qed

lemma call_cases:
  obtains (details) k r c w where "cl = Details k"
      "lru_cache_call 128 (get_movie_details_body U self) k (details_cache s) (sent s) = (r, c, w)"
      "snd (call U self cl s) = s\<lparr>details_cache := c, sent := w\<rparr>"
  | (search) q r c w where "cl = Search q"
      "lru_cache_call 32 (search_movies_body U self) q (search_cache s) (sent s) = (r, c, w)"
      "snd (call U self cl s) = s\<lparr>search_cache := c, sent := w\<rparr>"
proof (cases cl)
  case (Details k)
  obtain r c w where "lru_cache_call 128 (get_movie_details_body U self) k (details_cache s) (sent s) = (r, c, w)"
    by (metis prod_cases3)
  with Details details show ?thesis by (simp add: call_def get_movie_details_def)
next
  case (Search q)
  obtain r c w where "lru_cache_call 32 (search_movies_body U self) q (search_cache s) (sent s) = (r, c, w)"
    by (metis prod_cases3)
  with Search search show ?thesis by (simp add: call_def search_movies_def)
qed

lemma call_details_value_stable:
  assumes "map_of (details_cache s) K = Some v"
    and "map_of (details_cache (snd (call U self cl s))) K = Some v'"
  shows "v' = v"
proof (cases rule: call_cases[of cl U self s])
  case (details k r c w)
  with assms lru_value_stable[OF details(2), of K v v'] show ?thesis by simp
next
  case (search q r c w)
  with assms show ?thesis by simp
qed

lemma call_search_value_stable:
  assumes "map_of (search_cache s) K = Some v"
    and "map_of (search_cache (snd (call U self cl s))) K = Some v'"
  shows "v' = v"
proof (cases rule: call_cases[of cl U self s])
  case (details k r c w)
  with assms show ?thesis by simp
next
  case (search q r c w)
  with assms lru_value_stable[OF search(2), of K v v'] show ?thesis by simp
qed

lemma call_details_absent_stays:
  assumes "cl \<noteq> Details K" "map_of (details_cache s) K = None"
  shows "map_of (details_cache (snd (call U self cl s))) K = None"
proof (cases rule: call_cases[of cl U self s])
  case (details k r c w)
  with assms lru_absent_stays[OF details(2), of K] show ?thesis by simp
next
  case (search q r c w)
  with assms show ?thesis by simp
qed

lemma call_search_absent_stays:
  assumes "cl \<noteq> Search K" "map_of (search_cache s) K = None"
  shows "map_of (search_cache (snd (call U self cl s))) K = None"
proof (cases rule: call_cases[of cl U self s])
  case (details k r c w)
  with assms show ?thesis by simp
next
  case (search q r c w)
  with assms lru_absent_stays[OF search(2), of K] show ?thesis by simp
qed

lemma details_kept_cached: "details_entry_kept U self K cs s \<Longrightarrow> map_of (details_cache s) K \<noteq> None"
  by (cases cs) simp_all

lemma search_kept_cached: "search_entry_kept U self K cs s \<Longrightarrow> map_of (search_cache s) K \<noteq> None"
  by (cases cs) simp_all

lemma details_kept_value:
  assumes "details_entry_kept U self K cs s" "map_of (details_cache s) K = Some v"
  shows "map_of (details_cache (snd (run U self cs s))) K = Some v"
  using assms
proof (induction cs arbitrary: s)
  case Nil
  then show ?case by simp
next
  case (Cons c cs)
  let ?s1 = "snd (call U self c s)"
  from Cons.prems(1) have kept: "details_entry_kept U self K cs ?s1" by simp
  from details_kept_cached[OF kept] obtain v1 where v1: "map_of (details_cache ?s1) K = Some v1" by auto
  from call_details_value_stable[OF Cons.prems(2) v1] v1
  have "map_of (details_cache ?s1) K = Some v" by simp
  from Cons.IH[OF kept this] show ?case by (simp only: run_Cons_snd)
qed

lemma search_kept_value:
  assumes "search_entry_kept U self K cs s" "map_of (search_cache s) K = Some v"
  shows "map_of (search_cache (snd (run U self cs s))) K = Some v"
  using assms
proof (induction cs arbitrary: s)
  case Nil
  then show ?case by simp
next
  case (Cons c cs)
  let ?s1 = "snd (call U self c s)"
  from Cons.prems(1) have kept: "search_entry_kept U self K cs ?s1" by simp
  from search_kept_cached[OF kept] obtain v1 where v1: "map_of (search_cache ?s1) K = Some v1" by auto
  from call_search_value_stable[OF Cons.prems(2) v1] v1
  have "map_of (search_cache ?s1) K = Some v" by simp
  from Cons.IH[OF kept this] show ?case by (simp only: run_Cons_snd)
qed

lemma details_absent_run:
  assumes "Details K \<notin> set cs" "map_of (details_cache s) K = None"
  shows "map_of (details_cache (snd (run U self cs s))) K = None"
  using assms
proof (induction cs arbitrary: s)
  case Nil
  then show ?case by simp
next
  case (Cons c cs)
  from Cons.prems have "c \<noteq> Details K" "Details K \<notin> set cs" by auto
  from Cons.IH[OF this(2) call_details_absent_stays[OF this(1) Cons.prems(2)]]
  show ?case by (simp only: run_Cons_snd)
qed

lemma search_absent_run:
  assumes "Search K \<notin> set cs" "map_of (search_cache s) K = None"
  shows "map_of (search_cache (snd (run U self cs s))) K = None"
  using assms
proof (induction cs arbitrary: s)
  case Nil
  then show ?case by simp
next
  case (Cons c cs)
  from Cons.prems have "c \<noteq> Search K" "Search K \<notin> set cs" by auto
  from Cons.IH[OF this(2) call_search_absent_stays[OF this(1) Cons.prems(2)]]
  show ?case by (simp only: run_Cons_snd)
qed

lemma details_other_keys_kept:
  assumes "Details K \<notin> set cs" "map_of (details_cache (snd (run U self cs s))) K \<noteq> None"
  shows "details_entry_kept U self K cs s"
  using assms
proof (induction cs arbitrary: s)
  case Nil
  then show ?case by simp
next
  case (Cons c cs)
  from Cons.prems(1) have nc: "Details K \<notin> set cs" by simp
  from Cons.prems(2) have fin: "map_of (details_cache (snd (run U self cs (snd (call U self c s))))) K \<noteq> None"
    by (simp only: run_Cons_snd simp_thms)
  have "map_of (details_cache s) K \<noteq> None"
  proof
    assume a: "map_of (details_cache s) K = None"
    have "map_of (details_cache (snd (run U self (c # cs) s))) K = None"
      by (rule details_absent_run[OF Cons.prems(1) a])
    with Cons.prems(2) show False by (rule notE)
  qed
  with Cons.IH[OF nc fin] show ?case by simp
qed

lemma search_other_keys_kept:
  assumes "Search K \<notin> set cs" "map_of (search_cache (snd (run U self cs s))) K \<noteq> None"
  shows "search_entry_kept U self K cs s"
  using assms
proof (induction cs arbitrary: s)
  case Nil
  then show ?case by simp
next
  case (Cons c cs)
  from Cons.prems(1) have nc: "Search K \<notin> set cs" by simp
  from Cons.prems(2) have fin: "map_of (search_cache (snd (run U self cs (snd (call U self c s))))) K \<noteq> None"
    by (simp only: run_Cons_snd simp_thms)
  have "map_of (search_cache s) K \<noteq> None"
  proof
    assume a: "map_of (search_cache s) K = None"
    have "map_of (search_cache (snd (run U self (c # cs) s))) K = None"
      by (rule search_absent_run[OF Cons.prems(1) a])
    with Cons.prems(2) show False by (rule notE)
  qed
  with Cons.IH[OF nc fin] show ?case by simp
qed

lemma details_replay:
  assumes first: "fst (get_movie_details U self k s) = Inr v"
    and kept: "details_entry_kept Um self k cs (snd (get_movie_details U self k s))"
  shows "fst (get_movie_details U' self k (snd (run Um self cs (snd (get_movie_details U self k s))))) = Inr v"
    and "sent (snd (get_movie_details U' self k (snd (run Um self cs (snd (get_movie_details U self k s)))))) =
         sent (snd (run Um self cs (snd (get_movie_details U self k s))))"
proof -
  obtain s1 where c1: "get_movie_details U self k s = (Inr v, s1)"
    using first by (cases "get_movie_details U self k s") simp
  from details_stored[OF c1] have st: "map_of (details_cache s1) k = Some v" .
  from kept c1 have "details_entry_kept Um self k cs s1" by simp
  from details_kept_value[OF this st] have "map_of (details_cache (snd (run Um self cs s1))) k = Some v" .
  from details_hit(1,2)[OF this, of U' self] c1
  show "fst (get_movie_details U' self k (snd (run Um self cs (snd (get_movie_details U self k s))))) = Inr v"
    and "sent (snd (get_movie_details U' self k (snd (run Um self cs (snd (get_movie_details U self k s)))))) =
         sent (snd (run Um self cs (snd (get_movie_details U self k s))))"
    by simp_all
qed

lemma search_replay:
  assumes first: "fst (search_movies U self q s) = Inr v"
    and kept: "search_entry_kept Um self q cs (snd (search_movies U self q s))"
  shows "fst (search_movies U' self q (snd (run Um self cs (snd (search_movies U self q s))))) = Inr v"
    and "sent (snd (search_movies U' self q (snd (run Um self cs (snd (search_movies U self q s)))))) =
         sent (snd (run Um self cs (snd (search_movies U self q s))))"
proof -
  obtain s1 where c1: "search_movies U self q s = (Inr v, s1)"
    using first by (cases "search_movies U self q s") simp
  from search_stored[OF c1] have st: "map_of (search_cache s1) q = Some v" .
  from kept c1 have "search_entry_kept Um self q cs s1" by simp
  from search_kept_value[OF this st] have "map_of (search_cache (snd (run Um self cs s1))) q = Some v" .
  from search_hit(1,2)[OF this, of U' self] c1
  show "fst (search_movies U' self q (snd (run Um self cs (snd (search_movies U self q s))))) = Inr v"
    and "sent (snd (search_movies U' self q (snd (run Um self cs (snd (search_movies U self q s)))))) =
         sent (snd (run Um self cs (snd (search_movies U self q s))))"
    by simp_all
qed

text \<open>
  C3. Errors are cached like successes. When a call returns the not-found indicator
  or an error dictionary, a later call with the same key returns that same value and
  sends nothing upstream, whatever the upstream would answer by then: the failed call
  is not retried. This holds for the call that follows immediately and, more generally,
  after any sequence of other calls along which the entry remains cached (calls with
  other keys, calls to the other method, repeated calls with the key itself), for the
  detail lookup and for the search.
\<close>

theorem errors_are_cached:
  "(fst (get_movie_details U self movie_id s) = Inr v \<and> (v = JNull \<or> is_error_dict v) \<longrightarrow>
      fst (get_movie_details U' self movie_id (snd (get_movie_details U self movie_id s))) = Inr v
    \<and> sent (snd (get_movie_details U' self movie_id (snd (get_movie_details U self movie_id s)))) =
        sent (snd (get_movie_details U self movie_id s)))
   \<and> (fst (search_movies U self q s) = Inr v' \<and> (v' = JNull \<or> is_error_dict v') \<longrightarrow>
      fst (search_movies U' self q (snd (search_movies U self q s))) = Inr v'
    \<and> sent (snd (search_movies U' self q (snd (search_movies U self q s)))) =
        sent (snd (search_movies U self q s)))
   \<and> (fst (get_movie_details U self movie_id s) = Inr v \<and> (v = JNull \<or> is_error_dict v)
        \<and> details_entry_kept Um self movie_id cs (snd (get_movie_details U self movie_id s)) \<longrightarrow>
      fst (get_movie_details U' self movie_id
            (snd (run Um self cs (snd (get_movie_details U self movie_id s))))) = Inr v
    \<and> sent (snd (get_movie_details U' self movie_id
            (snd (run Um self cs (snd (get_movie_details U self movie_id s)))))) =
        sent (snd (run Um self cs (snd (get_movie_details U self movie_id s)))))
   \<and> (fst (search_movies U self q s) = Inr v' \<and> (v' = JNull \<or> is_error_dict v')
        \<and> search_entry_kept Um self q cs' (snd (search_movies U self q s)) \<longrightarrow>
      fst (search_movies U' self q
            (snd (run Um self cs' (snd (search_movies U self q s))))) = Inr v'
    \<and> sent (snd (search_movies U' self q
            (snd (run Um self cs' (snd (search_movies U self q s)))))) =
        sent (snd (run Um self cs' (snd (search_movies U self q s)))))"
  using details_then_hit[of U self movie_id s v U'] search_then_hit[of U self q s v' U']
    details_replay[of U self movie_id s v Um cs U'] search_replay[of U self q s v' Um cs' U']
  by blast

theorem errors_are_cached_witness:
  "fst (get_movie_details recovering demo_client 24428 init_state) =
     Inr (JObj [(''error'', JStr ''Network or Connection error''), (''message'', JStr ''Connection refused'')])
   \<and> fst (get_movie_details recovering demo_client 24428
          (snd (get_movie_details recovering demo_client 24428 init_state))) =
     Inr (JObj [(''error'', JStr ''Network or Connection error''), (''message'', JStr ''Connection refused'')])
   \<and> sent (snd (get_movie_details recovering demo_client 24428
          (snd (get_movie_details recovering demo_client 24428 init_state)))) =
     [details_request demo_client 24428]
   \<and> fst (search_movies recovering demo_client ''avengers'' init_state) =
     Inr (JObj [(''error'', JStr ''Network or connection error''), (''message'', JStr ''Connection refused'')])
   \<and> fst (search_movies recovering demo_client ''avengers''
          (snd (search_movies recovering demo_client ''avengers'' init_state))) =
     Inr (JObj [(''error'', JStr ''Network or connection error''), (''message'', JStr ''Connection refused'')])
   \<and> sent (snd (search_movies recovering demo_client ''avengers''
          (snd (search_movies recovering demo_client ''avengers'' init_state)))) =
     [search_request demo_client ''avengers'']
   \<and> fst (run recovering demo_client [Details 550, Search ''dune'', Details 24428]
          (snd (get_movie_details recovering demo_client 24428 init_state))) =
     [Inr (JObj [(''id'', JInt 24428), (''title'', JStr ''The Avengers'')]),
      Inr (JObj [(''id'', JInt 24428), (''title'', JStr ''The Avengers'')]),
      Inr (JObj [(''error'', JStr ''Network or Connection error''), (''message'', JStr ''Connection refused'')])]
   \<and> fst (get_movie_details recovering demo_client 24428
          (snd (run recovering demo_client [Details 550, Search ''dune'', Details 24428]
            (snd (get_movie_details recovering demo_client 24428 init_state))))) =
     Inr (JObj [(''error'', JStr ''Network or Connection error''), (''message'', JStr ''Connection refused'')])
   \<and> sent (snd (get_movie_details recovering demo_client 24428
          (snd (run recovering demo_client [Details 550, Search ''dune'', Details 24428]
            (snd (get_movie_details recovering demo_client 24428 init_state)))))) =
     [details_request demo_client 24428, details_request demo_client 550, search_request demo_client ''dune'']
   \<and> fst (search_movies recovering demo_client ''avengers''
          (snd (run recovering demo_client [Search ''dune'', Details 24428]
            (snd (search_movies recovering demo_client ''avengers'' init_state))))) =
     Inr (JObj [(''error'', JStr ''Network or connection error''), (''message'', JStr ''Connection refused'')])
   \<and> sent (snd (search_movies recovering demo_client ''avengers''
          (snd (run recovering demo_client [Search ''dune'', Details 24428]
            (snd (search_movies recovering demo_client ''avengers'' init_state)))))) =
     [search_request demo_client ''avengers'', search_request demo_client ''dune'', details_request demo_client 24428]"
proof -
  let ?de = "JObj [(''error'', JStr ''Network or Connection error''), (''message'', JStr ''Connection refused'')]"
  let ?se = "JObj [(''error'', JStr ''Network or connection error''), (''message'', JStr ''Connection refused'')]"
  let ?cs = "[Details 550, Search ''dune'', Details 24428]"
  let ?cs' = "[Search ''dune'', Details 24428]"
  have d1: "fst (get_movie_details recovering demo_client 24428 init_state) = Inr ?de"
    by (simp add: recovering_def eval_defs)
  have d2: "sent (snd (get_movie_details recovering demo_client 24428 init_state)) =
     [details_request demo_client 24428]"
    by (simp add: details_miss_sent init_state_def)
  have s1: "fst (search_movies recovering demo_client ''avengers'' init_state) = Inr ?se"
    by (simp add: recovering_def eval_defs)
  have s2: "sent (snd (search_movies recovering demo_client ''avengers'' init_state)) =
     [search_request demo_client ''avengers'']"
    by (simp add: search_miss_sent init_state_def)
  have e: "is_error_dict ?de" "is_error_dict ?se"
    by (simp_all add: dict_has_def)
  have dk: "details_entry_kept recovering demo_client 24428 ?cs
      (snd (get_movie_details recovering demo_client 24428 init_state))"
    by (simp add: call_def recovering_def eval_defs)
  have sk: "search_entry_kept recovering demo_client ''avengers'' ?cs'
      (snd (search_movies recovering demo_client ''avengers'' init_state))"
    by (simp add: call_def recovering_def eval_defs)
  have dr: "fst (run recovering demo_client ?cs (snd (get_movie_details recovering demo_client 24428 init_state))) =
     [Inr (JObj [(''id'', JInt 24428), (''title'', JStr ''The Avengers'')]),
      Inr (JObj [(''id'', JInt 24428), (''title'', JStr ''The Avengers'')]), Inr ?de]"
    by (simp add: call_def recovering_def eval_defs)
  have dsent: "sent (snd (run recovering demo_client ?cs (snd (get_movie_details recovering demo_client 24428 init_state)))) =
     [details_request demo_client 24428, details_request demo_client 550, search_request demo_client ''dune'']"
    by (simp add: call_def recovering_def eval_defs)
  have ssent: "sent (snd (run recovering demo_client ?cs' (snd (search_movies recovering demo_client ''avengers'' init_state)))) =
     [search_request demo_client ''avengers'', search_request demo_client ''dune'', details_request demo_client 24428]"
    by (simp add: call_def recovering_def eval_defs)
  note T = errors_are_cached[where U = recovering and U' = recovering and Um = recovering
      and self = demo_client and movie_id = 24428 and s = init_state and q = "''avengers''"
      and v = ?de and v' = ?se and cs = ?cs and cs' = ?cs']
  have a: "fst (get_movie_details recovering demo_client 24428
          (snd (get_movie_details recovering demo_client 24428 init_state))) = Inr ?de
   \<and> sent (snd (get_movie_details recovering demo_client 24428
          (snd (get_movie_details recovering demo_client 24428 init_state)))) =
      sent (snd (get_movie_details recovering demo_client 24428 init_state))"
    using T d1 e by blast
  have b: "fst (search_movies recovering demo_client ''avengers''
          (snd (search_movies recovering demo_client ''avengers'' init_state))) = Inr ?se
   \<and> sent (snd (search_movies recovering demo_client ''avengers''
          (snd (search_movies recovering demo_client ''avengers'' init_state)))) =
      sent (snd (search_movies recovering demo_client ''avengers'' init_state))"
    using T s1 e by blast
  have c: "fst (get_movie_details recovering demo_client 24428
          (snd (run recovering demo_client ?cs
            (snd (get_movie_details recovering demo_client 24428 init_state))))) = Inr ?de
   \<and> sent (snd (get_movie_details recovering demo_client 24428
          (snd (run recovering demo_client ?cs
            (snd (get_movie_details recovering demo_client 24428 init_state)))))) =
      sent (snd (run recovering demo_client ?cs (snd (get_movie_details recovering demo_client 24428 init_state))))"
    using T d1 e dk by blast
  have d: "fst (search_movies recovering demo_client ''avengers''
          (snd (run recovering demo_client ?cs'
            (snd (search_movies recovering demo_client ''avengers'' init_state))))) = Inr ?se
   \<and> sent (snd (search_movies recovering demo_client ''avengers''
          (snd (run recovering demo_client ?cs'
            (snd (search_movies recovering demo_client ''avengers'' init_state)))))) =
      sent (snd (run recovering demo_client ?cs' (snd (search_movies recovering demo_client ''avengers'' init_state))))"
    using T s1 e sk by blast
  from a b c d d1 d2 s1 s2 dr dsent ssent show ?thesis by (simp only: simp_thms)
qed

text \<open>
  C1, as the code has it. A call with a key that is not in the cache sends exactly one
  request. If a call returns a value, a later call with the same key made while the
  entry is still cached returns the identical value and sends nothing more: the call
  that follows immediately, and any call after a sequence of calls along which the
  entry remains cached. The entry remains cached along a sequence in particular when
  no call of the sequence has that key and the key is in the cache afterwards. As long
  as the key is in the cache a call returns the stored value, sends nothing, and leaves
  the key cached. This holds for both methods.
\<close>

theorem memoization_while_cached:
  "(map_of (details_cache s) movie_id = None \<longrightarrow>
      sent (snd (get_movie_details U self movie_id s)) = sent s @ [details_request self movie_id])
   \<and> (map_of (details_cache s) movie_id = None \<and> fst (get_movie_details U self movie_id s) = Inr v \<longrightarrow>
      fst (get_movie_details U' self movie_id (snd (get_movie_details U self movie_id s))) = Inr v
    \<and> sent (snd (get_movie_details U' self movie_id (snd (get_movie_details U self movie_id s)))) =
        sent s @ [details_request self movie_id])
   \<and> (map_of (details_cache s) movie_id = Some v \<longrightarrow>
      fst (get_movie_details U' self movie_id s) = Inr v
    \<and> sent (snd (get_movie_details U' self movie_id s)) = sent s
    \<and> map_of (details_cache (snd (get_movie_details U' self movie_id s))) movie_id = Some v)
   \<and> (map_of (search_cache s) q = None \<longrightarrow>
      sent (snd (search_movies U self q s)) = sent s @ [search_request self q])
   \<and> (map_of (search_cache s) q = None \<and> fst (search_movies U self q s) = Inr v' \<longrightarrow>
      fst (search_movies U' self q (snd (search_movies U self q s))) = Inr v'
    \<and> sent (snd (search_movies U' self q (snd (search_movies U self q s)))) =
        sent s @ [search_request self q])
   \<and> (map_of (search_cache s) q = Some v' \<longrightarrow>
      fst (search_movies U' self q s) = Inr v'
    \<and> sent (snd (search_movies U' self q s)) = sent s
    \<and> map_of (search_cache (snd (search_movies U' self q s))) q = Some v')
   \<and> (fst (get_movie_details U self movie_id s) = Inr v
        \<and> details_entry_kept Um self movie_id cs (snd (get_movie_details U self movie_id s)) \<longrightarrow>
      fst (get_movie_details U' self movie_id
            (snd (run Um self cs (snd (get_movie_details U self movie_id s))))) = Inr v
    \<and> sent (snd (get_movie_details U' self movie_id
            (snd (run Um self cs (snd (get_movie_details U self movie_id s)))))) =
        sent (snd (run Um self cs (snd (get_movie_details U self movie_id s)))))
   \<and> (fst (search_movies U self q s) = Inr v'
        \<and> search_entry_kept Um self q cs' (snd (search_movies U self q s)) \<longrightarrow>
      fst (search_movies U' self q
            (snd (run Um self cs' (snd (search_movies U self q s))))) = Inr v'
    \<and> sent (snd (search_movies U' self q
            (snd (run Um self cs' (snd (search_movies U self q s)))))) =
        sent (snd (run Um self cs' (snd (search_movies U self q s)))))
   \<and> (Details movie_id \<notin> set cs
        \<and> map_of (details_cache (snd (run Um self cs s))) movie_id \<noteq> None \<longrightarrow>
      details_entry_kept Um self movie_id cs s)
   \<and> (Search q \<notin> set cs'
        \<and> map_of (search_cache (snd (run Um self cs' s))) q \<noteq> None \<longrightarrow>
      search_entry_kept Um self q cs' s)"
proof -
  have old: "(map_of (details_cache s) movie_id = None \<longrightarrow>
      sent (snd (get_movie_details U self movie_id s)) = sent s @ [details_request self movie_id])
   \<and> (map_of (details_cache s) movie_id = None \<and> fst (get_movie_details U self movie_id s) = Inr v \<longrightarrow>
      fst (get_movie_details U' self movie_id (snd (get_movie_details U self movie_id s))) = Inr v
    \<and> sent (snd (get_movie_details U' self movie_id (snd (get_movie_details U self movie_id s)))) =
        sent s @ [details_request self movie_id])
   \<and> (map_of (details_cache s) movie_id = Some v \<longrightarrow>
      fst (get_movie_details U' self movie_id s) = Inr v
    \<and> sent (snd (get_movie_details U' self movie_id s)) = sent s
    \<and> map_of (details_cache (snd (get_movie_details U' self movie_id s))) movie_id = Some v)
   \<and> (map_of (search_cache s) q = None \<longrightarrow>
      sent (snd (search_movies U self q s)) = sent s @ [search_request self q])
   \<and> (map_of (search_cache s) q = None \<and> fst (search_movies U self q s) = Inr v' \<longrightarrow>
      fst (search_movies U' self q (snd (search_movies U self q s))) = Inr v'
    \<and> sent (snd (search_movies U' self q (snd (search_movies U self q s)))) =
        sent s @ [search_request self q])
   \<and> (map_of (search_cache s) q = Some v' \<longrightarrow>
      fst (search_movies U' self q s) = Inr v'
    \<and> sent (snd (search_movies U' self q s)) = sent s
    \<and> map_of (search_cache (snd (search_movies U' self q s))) q = Some v')"
    using details_then_hit[of U self movie_id s v U'] search_then_hit[of U self q s v' U']
      details_miss_sent[of s movie_id U self] search_miss_sent[of s q U self]
      details_hit[of s movie_id v U' self] search_hit[of s q v' U' self]
    by simp
  have d: "fst (get_movie_details U self movie_id s) = Inr v
        \<and> details_entry_kept Um self movie_id cs (snd (get_movie_details U self movie_id s)) \<longrightarrow>
      fst (get_movie_details U' self movie_id
            (snd (run Um self cs (snd (get_movie_details U self movie_id s))))) = Inr v
    \<and> sent (snd (get_movie_details U' self movie_id
            (snd (run Um self cs (snd (get_movie_details U self movie_id s)))))) =
        sent (snd (run Um self cs (snd (get_movie_details U self movie_id s))))"
    using details_replay[of U self movie_id s v Um cs U'] by fast
  have q: "fst (search_movies U self q s) = Inr v'
        \<and> search_entry_kept Um self q cs' (snd (search_movies U self q s)) \<longrightarrow>
      fst (search_movies U' self q
            (snd (run Um self cs' (snd (search_movies U self q s))))) = Inr v'
    \<and> sent (snd (search_movies U' self q
            (snd (run Um self cs' (snd (search_movies U self q s)))))) =
        sent (snd (run Um self cs' (snd (search_movies U self q s))))"
    using search_replay[of U self q s v' Um cs' U'] by fast
  have dk: "Details movie_id \<notin> set cs
        \<and> map_of (details_cache (snd (run Um self cs s))) movie_id \<noteq> None \<longrightarrow>
      details_entry_kept Um self movie_id cs s"
    using details_other_keys_kept[of movie_id cs Um self s] by fast
  have qk: "Search q \<notin> set cs'
        \<and> map_of (search_cache (snd (run Um self cs' s))) q \<noteq> None \<longrightarrow>
      search_entry_kept Um self q cs' s"
    using search_other_keys_kept[of q cs' Um self s] by fast
  from old d q dk qk show ?thesis by (elim conjE) (intro conjI; assumption)
qed

theorem memoization_while_cached_witness:
  "sent (snd (get_movie_details counting demo_client 24428 init_state)) = [details_request demo_client 24428]
   \<and> fst (get_movie_details counting demo_client 24428 init_state) = Inr (JInt 0)
   \<and> fst (get_movie_details counting demo_client 24428
          (snd (get_movie_details counting demo_client 24428 init_state))) = Inr (JInt 0)
   \<and> sent (snd (get_movie_details counting demo_client 24428
          (snd (get_movie_details counting demo_client 24428 init_state)))) = [details_request demo_client 24428]
   \<and> sent (snd (search_movies counting demo_client ''avengers'' init_state)) = [search_request demo_client ''avengers'']
   \<and> fst (search_movies counting demo_client ''avengers'' init_state) = Inr (JInt 0)
   \<and> fst (search_movies counting demo_client ''avengers''
          (snd (search_movies counting demo_client ''avengers'' init_state))) = Inr (JInt 0)
   \<and> sent (snd (search_movies counting demo_client ''avengers''
          (snd (search_movies counting demo_client ''avengers'' init_state)))) = [search_request demo_client ''avengers'']
   \<and> fst (run counting demo_client [Details 550, Search ''dune'']
          (snd (get_movie_details counting demo_client 24428 init_state))) = [Inr (JInt 1), Inr (JInt 2)]
   \<and> fst (get_movie_details counting demo_client 24428
          (snd (run counting demo_client [Details 550, Search ''dune'']
            (snd (get_movie_details counting demo_client 24428 init_state))))) = Inr (JInt 0)
   \<and> sent (snd (get_movie_details counting demo_client 24428
          (snd (run counting demo_client [Details 550, Search ''dune'']
            (snd (get_movie_details counting demo_client 24428 init_state)))))) =
       [details_request demo_client 24428, details_request demo_client 550, search_request demo_client ''dune'']
   \<and> fst (search_movies counting demo_client ''avengers''
          (snd (run counting demo_client [Search ''dune'', Details 550]
            (snd (search_movies counting demo_client ''avengers'' init_state))))) = Inr (JInt 0)
   \<and> sent (snd (search_movies counting demo_client ''avengers''
          (snd (run counting demo_client [Search ''dune'', Details 550]
            (snd (search_movies counting demo_client ''avengers'' init_state)))))) =
       [search_request demo_client ''avengers'', search_request demo_client ''dune'', details_request demo_client 550]"
proof -
  let ?cs = "[Details 550, Search ''dune'']"
  let ?cs' = "[Search ''dune'', Details 550]"
  let ?d1 = "snd (get_movie_details counting demo_client 24428 init_state)"
  let ?s1 = "snd (search_movies counting demo_client ''avengers'' init_state)"
  have miss: "map_of (details_cache init_state) 24428 = None" "map_of (search_cache init_state) ''avengers'' = None"
    "sent init_state = []"
    by (simp_all add: init_state_def)
  have d1: "fst (get_movie_details counting demo_client 24428 init_state) = Inr (JInt 0)"
    by (simp add: eval_defs)
  have s1: "fst (search_movies counting demo_client ''avengers'' init_state) = Inr (JInt 0)"
    by (simp add: eval_defs)
  have other: "Details 24428 \<notin> set ?cs" "Search ''avengers'' \<notin> set ?cs'"
    by simp_all
  have still: "map_of (details_cache (snd (run counting demo_client ?cs ?d1))) 24428 \<noteq> None"
    "map_of (search_cache (snd (run counting demo_client ?cs' ?s1))) ''avengers'' \<noteq> None"
    by (simp_all add: call_def eval_defs)
  have dr: "fst (run counting demo_client ?cs ?d1) = [Inr (JInt 1), Inr (JInt 2)]"
    by (simp add: call_def eval_defs)
  have dsent: "sent (snd (run counting demo_client ?cs ?d1)) =
       [details_request demo_client 24428, details_request demo_client 550, search_request demo_client ''dune'']"
    by (simp add: call_def eval_defs)
  have ssent: "sent (snd (run counting demo_client ?cs' ?s1)) =
       [search_request demo_client ''avengers'', search_request demo_client ''dune'', details_request demo_client 550]"
    by (simp add: call_def eval_defs)
  note T0 = memoization_while_cached[where U = counting and U' = counting and Um = counting
      and self = demo_client and movie_id = 24428 and s = init_state and q = "''avengers''"
      and v = "JInt 0" and v' = "JInt 0" and cs = ?cs and cs' = ?cs']
  note Td = memoization_while_cached[where Um = counting and self = demo_client and movie_id = 24428
      and s = ?d1 and cs = ?cs]
  note Ts = memoization_while_cached[where Um = counting and self = demo_client and q = "''avengers''"
      and s = ?s1 and cs' = ?cs']
  have dk: "details_entry_kept counting demo_client 24428 ?cs ?d1"
    using Td other(1) still(1) by blast
  have sk: "search_entry_kept counting demo_client ''avengers'' ?cs' ?s1"
    using Ts other(2) still(2) by blast
  have a: "sent ?d1 = sent init_state @ [details_request demo_client 24428]
    \<and> fst (get_movie_details counting demo_client 24428 ?d1) = Inr (JInt 0)
    \<and> sent (snd (get_movie_details counting demo_client 24428 ?d1)) =
        sent init_state @ [details_request demo_client 24428]"
    using T0 miss(1) d1 by blast
  have b: "sent ?s1 = sent init_state @ [search_request demo_client ''avengers'']
    \<and> fst (search_movies counting demo_client ''avengers'' ?s1) = Inr (JInt 0)
    \<and> sent (snd (search_movies counting demo_client ''avengers'' ?s1)) =
        sent init_state @ [search_request demo_client ''avengers'']"
    using T0 miss(2) s1 by blast
  have c: "fst (get_movie_details counting demo_client 24428 (snd (run counting demo_client ?cs ?d1))) = Inr (JInt 0)
    \<and> sent (snd (get_movie_details counting demo_client 24428 (snd (run counting demo_client ?cs ?d1)))) =
        sent (snd (run counting demo_client ?cs ?d1))"
    using T0 d1 dk by blast
  have d: "fst (search_movies counting demo_client ''avengers'' (snd (run counting demo_client ?cs' ?s1))) = Inr (JInt 0)
    \<and> sent (snd (search_movies counting demo_client ''avengers'' (snd (run counting demo_client ?cs' ?s1)))) =
        sent (snd (run counting demo_client ?cs' ?s1))"
    using T0 s1 sk by blast
  from a b c d d1 s1 dr dsent ssent miss(3) show ?thesis by (simp only: simp_thms append_Nil)
qed

text \<open>
  C5 as stated fails in its last part: the search does produce \<^verbatim>\<open>None\<close>. A 200 answer
  whose body is the JSON value \<^verbatim>\<open>null\<close> is returned as it is, and the search handler
  answers it as an empty successful result.
\<close>

theorem search_returns_none_counterexample:
  "fst (search_movies (always (ok JNull)) demo_client ''avengers'' init_state) = Inr JNull
   \<and> fst (search_movie strict (always (ok JNull)) (Some demo_client) 0 ''avengers'' init_state) =
       Inr \<lparr>s_query = ''avengers'', s_total_results = 0, s_results = [], s_duration_ms = 0\<rparr>"
  by (simp add: ok_def eval_defs)

end
